theory Spec2Isabelle
  imports Complex_Main
begin

section \<open>Geometry values\<close>

text \<open>
  The rasterizer of \<^verbatim>\<open>rasterized_source.py\<close> works on Shapely geometries. A geometry is
  modelled by its type and its coordinates; a coordinate is \<open>(x, y)\<close> with an optional
  third component \<open>z\<close>. A coordinate is a double-precision number, given by the real
  number it denotes. Minimum, maximum and floor are exact on doubles; the one operation
  of the program that rounds, the subtraction in \<^verbatim>\<open>to_window_frame\<close>, is a parameter of
  the model.
\<close>

type_synonym coord = "real \<times> real \<times> real option"

datatype geometry =
    Point "coord list"
  | LineString "coord list"
  | LinearRing "coord list"
  | Polygon "coord list" "coord list list"
  | MultiPoint "geometry list"
  | MultiLineString "geometry list"
  | MultiPolygon "geometry list"
  | GeometryCollection "geometry list"

fun coords :: "geometry \<Rightarrow> coord list" where
  "coords (Point cs) = cs"
| "coords (LineString cs) = cs"
| "coords (LinearRing cs) = cs"
| "coords (Polygon shell holes) = shell @ concat holes"
| "coords (MultiPoint gs) = concat (map coords gs)"
| "coords (MultiLineString gs) = concat (map coords gs)"
| "coords (MultiPolygon gs) = concat (map coords gs)"
| "coords (GeometryCollection gs) = concat (map coords gs)"

text \<open>\<^verbatim>\<open>s.is_empty\<close>: a geometry without any coordinate.\<close>

definition is_empty :: "geometry \<Rightarrow> bool" where
  "is_empty g = (coords g = [])"

text \<open>\<^verbatim>\<open>type(s) is shapely.geometry.LineString\<close>: the exact type, no subclass, no multi-part line.\<close>

fun type_is_LineString :: "geometry \<Rightarrow> bool" where
  "type_is_LineString (LineString cs) = True"
| "type_is_LineString g = False"

text \<open>
  \<^verbatim>\<open>s.bounds\<close>: \<open>(minx, miny, maxx, maxy)\<close>; the empty tuple, here \<open>None\<close>, for a geometry
  without coordinates.
\<close>

definition bounds :: "geometry \<Rightarrow> (real \<times> real \<times> real \<times> real) option" where
  "bounds g =
     (case coords g of
        [] \<Rightarrow> None
      | (x, y, z) # cs \<Rightarrow>
          Some (fold min (map fst cs) x, fold min (map (\<lambda>c. fst (snd c)) cs) y,
                fold max (map fst cs) x, fold max (map (\<lambda>c. fst (snd c)) cs) y))"

text \<open>
  \<^verbatim>\<open>shapely.ops.transform(func, geom)\<close>: \<open>func\<close> is called on every coordinate tuple
  (\<^verbatim>\<open>func(*c)\<close>, so with two or three arguments) and the geometry is rebuilt, with the same
  type, from the tuples it returns. The function passed by the rasterizer returns pairs,
  so the rebuilt geometry has no third component.
\<close>

definition apply_func :: "(real \<Rightarrow> real \<Rightarrow> real option \<Rightarrow> real \<times> real) \<Rightarrow> coord \<Rightarrow> coord" where
  "apply_func f c = (case c of (x, y, z) \<Rightarrow> (case f x y z of (x', y') \<Rightarrow> (x', y', None)))"

fun transform :: "(real \<Rightarrow> real \<Rightarrow> real option \<Rightarrow> real \<times> real) \<Rightarrow> geometry \<Rightarrow> geometry" where
  "transform f (Point cs) = Point (map (apply_func f) cs)"
| "transform f (LineString cs) = LineString (map (apply_func f) cs)"
| "transform f (LinearRing cs) = LinearRing (map (apply_func f) cs)"
| "transform f (Polygon shell holes) =
     Polygon (map (apply_func f) shell) (map (map (apply_func f)) holes)"
| "transform f (MultiPoint gs) = MultiPoint (map (transform f) gs)"
| "transform f (MultiLineString gs) = MultiLineString (map (transform f) gs)"
| "transform f (MultiPolygon gs) = MultiPolygon (map (transform f) gs)"
| "transform f (GeometryCollection gs) = GeometryCollection (map (transform f) gs)"

text \<open>The two-dimensional footprint of a geometry: every third component removed.\<close>

definition drop_z :: "coord \<Rightarrow> coord" where
  "drop_z c = (case c of (x, y, z) \<Rightarrow> (x, y, None))"

fun force_2d :: "geometry \<Rightarrow> geometry" where
  "force_2d (Point cs) = Point (map drop_z cs)"
| "force_2d (LineString cs) = LineString (map drop_z cs)"
| "force_2d (LinearRing cs) = LinearRing (map drop_z cs)"
| "force_2d (Polygon shell holes) = Polygon (map drop_z shell) (map (map drop_z) holes)"
| "force_2d (MultiPoint gs) = MultiPoint (map force_2d gs)"
| "force_2d (MultiLineString gs) = MultiLineString (map force_2d gs)"
| "force_2d (MultiPolygon gs) = MultiPolygon (map force_2d gs)"
| "force_2d (GeometryCollection gs) = GeometryCollection (map force_2d gs)"

section \<open>Box\<close>

text \<open>
  \<^verbatim>\<open>rastervision.core.Box\<close> is not part of the source file; it is modelled from the
  specification's data model: four coordinates, height and width as differences,
  conversion to and from a polygon, and truncation to integers.
\<close>

record 'a box =
  ymin :: 'a
  xmin :: 'a
  ymax :: 'a
  xmax :: 'a

text \<open>Modelled from the spec: \<^verbatim>\<open>Box.get_height\<close>, height = ymax - ymin.\<close>

definition get_height :: "int box \<Rightarrow> int" where
  "get_height b = ymax b - ymin b"

text \<open>Modelled from the spec: \<^verbatim>\<open>Box.get_width\<close>, width = xmax - xmin.\<close>

definition get_width :: "int box \<Rightarrow> int" where
  "get_width b = xmax b - xmin b"

text \<open>
  The coordinates of a box of integers, as the doubles a Shapely geometry holds; integers
  of the size of pixel coordinates are doubles, so nothing is rounded here.
\<close>

definition real_box :: "int box \<Rightarrow> real box" where
  "real_box b = \<lparr>ymin = real_of_int (ymin b), xmin = real_of_int (xmin b),
                 ymax = real_of_int (ymax b), xmax = real_of_int (xmax b)\<rparr>"

text \<open>
  Modelled from the spec: \<^verbatim>\<open>Box.to_shapely\<close>, the conversion of a box to its polygon
  (the closed ring of its four corners).
\<close>

definition to_shapely :: "real box \<Rightarrow> geometry" where
  "to_shapely b =
     Polygon [(xmax b, ymin b, None), (xmax b, ymax b, None), (xmin b, ymax b, None),
              (xmin b, ymin b, None), (xmax b, ymin b, None)] []"

text \<open>
  Modelled from the spec: \<^verbatim>\<open>Box.from_shapely\<close>, the box of a geometry's bounds; there is
  none for a geometry without coordinates.
\<close>

definition from_shapely :: "geometry \<Rightarrow> real box option" where
  "from_shapely g =
     (case bounds g of
        None \<Rightarrow> None
      | Some (minx, miny, maxx, maxy) \<Rightarrow>
          Some \<lparr>ymin = miny, xmin = minx, ymax = maxy, xmax = maxx\<rparr>)"

text \<open>
  Modelled from the spec: \<^verbatim>\<open>Box.to_int\<close>, truncation to integer bounds, floor on the
  minimum and floor on the maximum edges.
\<close>

definition to_int :: "real box \<Rightarrow> int box" where
  "to_int b = \<lparr>ymin = \<lfloor>ymin b\<rfloor>, xmin = \<lfloor>xmin b\<rfloor>, ymax = \<lfloor>ymax b\<rfloor>, xmax = \<lfloor>xmax b\<rfloor>\<rparr>"

text \<open>
  \<^verbatim>\<open>window.to_shapely().intersection(extent.to_shapely())\<close>: the intersection of two
  axis-parallel rectangles, which is the empty geometry, a point, a segment or a
  rectangle. The rectangle of a box reaches from the smaller to the larger of its two
  coordinates on each axis; \<open>overlap\<close> gives the bounds of the common part.
\<close>

definition overlap :: "real box \<Rightarrow> real box \<Rightarrow> real box" where
  "overlap a b =
     \<lparr>ymin = max (min (ymin a) (ymax a)) (min (ymin b) (ymax b)),
      xmin = max (min (xmin a) (xmax a)) (min (xmin b) (xmax b)),
      ymax = min (max (ymin a) (ymax a)) (max (ymin b) (ymax b)),
      xmax = min (max (xmin a) (xmax a)) (max (xmin b) (xmax b))\<rparr>"

definition box_intersection :: "real box \<Rightarrow> real box \<Rightarrow> geometry" where
  "box_intersection a b =
     (let c = overlap a b
      in if xmax c < xmin c \<or> ymax c < ymin c then GeometryCollection []
         else if xmin c = xmax c \<and> ymin c = ymax c then Point [(xmin c, ymin c, None)]
         else if xmin c = xmax c \<or> ymin c = ymax c
           then LineString [(xmin c, ymin c, None), (xmax c, ymax c, None)]
         else to_shapely c)"

section \<open>Arrays\<close>

text \<open>
  A two-dimensional NumPy array: its element type, its shape and its rows. An element
  is given by its numeric value; the two element types that occur hold every integer
  from 0 to 255 exactly, and a store into an unsigned 8-bit array wraps modulo 256.
\<close>

datatype dtype = uint8 | float64

datatype error = ActivationError string | ValueError | IndexError | AttributeError

record ndarray =
  dtype :: dtype
  shape :: "nat \<times> nat"
  items :: "int list list"

definition cast :: "dtype \<Rightarrow> int \<Rightarrow> int" where
  "cast dt v = (case dt of uint8 \<Rightarrow> v mod 256 | float64 \<Rightarrow> v)"

text \<open>\<^verbatim>\<open>np.full(shape, fill_value, dtype)\<close>; a negative dimension raises.\<close>

definition np_full :: "int \<times> int \<Rightarrow> int \<Rightarrow> dtype \<Rightarrow> error + ndarray" where
  "np_full sh v dt =
     (if fst sh < 0 \<or> snd sh < 0 then Inl ValueError
      else Inr \<lparr>dtype = dt, shape = (nat (fst sh), nat (snd sh)),
                items = replicate (nat (fst sh)) (replicate (nat (snd sh)) (cast dt v))\<rparr>)"

text \<open>\<^verbatim>\<open>np.zeros(shape)\<close>: no element type is given, so it is NumPy's default, float64.\<close>

definition np_zeros :: "int \<times> int \<Rightarrow> error + ndarray" where
  "np_zeros sh = np_full sh 0 float64"

text \<open>
  The bounds a Python slice \<^verbatim>\<open>a:b\<close> selects on an axis of length \<open>n\<close>: a negative index
  counts from the end, and both ends are clipped to the axis.
\<close>

definition slice_index :: "int \<Rightarrow> nat \<Rightarrow> nat" where
  "slice_index i n = (if i < 0 then nat (max (i + int n) 0) else nat (min i (int n)))"

text \<open>\<^verbatim>\<open>a[y0:y1, x0:x1]\<close> read.\<close>

definition getitem :: "ndarray \<Rightarrow> int \<times> int \<Rightarrow> int \<times> int \<Rightarrow> ndarray" where
  "getitem a ys xs =
     (let r0 = slice_index (fst ys) (fst (shape a)); r1 = slice_index (snd ys) (fst (shape a));
          c0 = slice_index (fst xs) (snd (shape a)); c1 = slice_index (snd xs) (snd (shape a))
      in \<lparr>dtype = dtype a, shape = (r1 - r0, c1 - c0),
          items = map (\<lambda>row. take (c1 - c0) (drop c0 row)) (take (r1 - r0) (drop r0 (items a)))\<rparr>)"

text \<open>
  \<^verbatim>\<open>a[y0:y1, x0:x1] = src\<close>: the source is broadcast to the selected region (an axis of
  length one is repeated), its values are cast to the element type of \<open>a\<close>, and a source
  of any other shape raises.
\<close>

definition setitem :: "ndarray \<Rightarrow> int \<times> int \<Rightarrow> int \<times> int \<Rightarrow> ndarray \<Rightarrow> error + ndarray" where
  "setitem a ys xs src =
     (let r0 = slice_index (fst ys) (fst (shape a)); r1 = slice_index (snd ys) (fst (shape a));
          c0 = slice_index (fst xs) (snd (shape a)); c1 = slice_index (snd xs) (snd (shape a));
          sr = fst (shape src); sc = snd (shape src)
      in if (sr = r1 - r0 \<or> sr = 1) \<and> (sc = c1 - c0 \<or> sc = 1)
         then Inr (a\<lparr>items :=
                map (\<lambda>(i, row). map (\<lambda>(j, v).
                       if r0 \<le> i \<and> i < r1 \<and> c0 \<le> j \<and> j < c1
                       then cast (dtype a)
                              (items src ! (if sr = 1 then 0 else i - r0)
                                         ! (if sc = 1 then 0 else j - c0))
                       else v) (enumerate 0 row)) (enumerate 0 (items a))\<rparr>)
         else Inl ValueError)"

text \<open>\<^verbatim>\<open>a[:, :] = v\<close>: every element becomes \<open>v\<close>, cast to the element type of \<open>a\<close>.\<close>

definition fill_all :: "ndarray \<Rightarrow> int \<Rightarrow> ndarray" where
  "fill_all a v = a\<lparr>items := map (map (\<lambda>_. cast (dtype a) v)) (items a)\<rparr>"

text \<open>A three-dimensional array, and \<^verbatim>\<open>np.expand_dims(chip, 2)\<close>.\<close>

record ndarray3 =
  dtype3 :: dtype
  shape3 :: "nat \<times> nat \<times> nat"
  items3 :: "int list list list"

definition expand_dims_2 :: "ndarray \<Rightarrow> ndarray3" where
  "expand_dims_2 a = \<lparr>dtype3 = dtype a, shape3 = (fst (shape a), snd (shape a), 1),
                       items3 = map (map (\<lambda>v. [v])) (items a)\<rparr>"

section \<open>The external libraries and the arithmetic of doubles\<close>

text \<open>
  Shapely's spatial index, intersection and buffer and rasterio's \<^verbatim>\<open>rasterize\<close> are not
  part of the program. They are parameters of the model, taken as total functions:
  the index is represented by the list of labelled geometries it was built from, and a
  labelled geometry (a geometry carrying the attribute \<^verbatim>\<open>class_id\<close>) by a pair.
  The subtraction of two doubles, which rounds its result, is the parameter \<open>float_sub\<close>.
\<close>

record geo_lib =
  query :: "(geometry \<times> int) list \<Rightarrow> geometry \<Rightarrow> (geometry \<times> int) list"
  intersection :: "geometry \<Rightarrow> geometry \<Rightarrow> geometry"
  buffer :: "geometry \<Rightarrow> real \<Rightarrow> geometry"
  rasterize :: "(geometry \<times> int) list \<Rightarrow> int \<times> int \<Rightarrow> int \<Rightarrow> dtype \<Rightarrow> ndarray"
  float_sub :: "real \<Rightarrow> real \<Rightarrow> real"

record rasterizer_options =
  line_buffer :: real
  background_class_id :: int

section \<open>The window rasterizer\<close>

text \<open>
  \<^verbatim>\<open>to_window_frame(x, y, z=None)\<close>, the local function of \<^verbatim>\<open>geojson_to_raster\<close>: two
  subtractions of doubles, the third argument unused.
\<close>

definition to_window_frame ::
  "geo_lib \<Rightarrow> int box \<Rightarrow> real \<Rightarrow> real \<Rightarrow> real option \<Rightarrow> real \<times> real" where
  "to_window_frame lib window x y z =
     (float_sub lib x (real_of_int (xmin window)), float_sub lib y (real_of_int (ymin window)))"

text \<open>
  Lines 24 to 27: the candidates of the index, each intersected with the window, the
  empty results removed.
\<close>

definition crop_shapes :: "geo_lib \<Rightarrow> (geometry \<times> int) list \<Rightarrow> int box \<Rightarrow> (geometry \<times> int) list" where
  "crop_shapes lib str_tree window =
     (let shapes = query lib str_tree (to_shapely (real_box window));
          shapes = map (\<lambda>(s, c). (intersection lib s (to_shapely (real_box window)), c)) shapes
      in filter (\<lambda>(s, c). \<not> is_empty s) shapes)"

text \<open>Lines 28 to 30, for one cropped shape.\<close>

definition buffer_line :: "geo_lib \<Rightarrow> real \<Rightarrow> geometry \<times> int \<Rightarrow> geometry \<times> int" where
  "buffer_line lib lb sc =
     (case sc of (s, c) \<Rightarrow> if type_is_LineString s then (buffer lib s lb, c) else (s, c))"

text \<open>Lines 24 to 36: the shapes handed to \<^verbatim>\<open>rasterize\<close>, in the window's frame.\<close>

definition window_shapes ::
  "geo_lib \<Rightarrow> (geometry \<times> int) list \<Rightarrow> real \<Rightarrow> int box \<Rightarrow> (geometry \<times> int) list" where
  "window_shapes lib str_tree lb window =
     map (\<lambda>(s, c). (transform (to_window_frame lib window) s, c))
       (map (buffer_line lib lb) (crop_shapes lib str_tree window))"

definition out_shape :: "int box \<Rightarrow> int \<times> int" where
  "out_shape window = (get_height window, get_width window)"

text \<open>Lines 39 to 50: the burned grid.\<close>

definition burn_in ::
  "geo_lib \<Rightarrow> (geometry \<times> int) list \<Rightarrow> rasterizer_options \<Rightarrow> int box \<Rightarrow> error + ndarray" where
  "burn_in lib str_tree opts window =
     (let shapes = window_shapes lib str_tree (line_buffer opts) window
      in if shapes \<noteq> []
         then Inr (rasterize lib shapes (out_shape window) (background_class_id opts) uint8)
         else np_full (out_shape window) (background_class_id opts) uint8)"

text \<open>Lines 54 to 59: the valid part of the window, in the window's frame, as integers.\<close>

definition valid_window :: "int box \<Rightarrow> real box \<Rightarrow> geometry" where
  "valid_window window extent = box_intersection (real_box window) extent"

definition valid_box :: "geo_lib \<Rightarrow> int box \<Rightarrow> real box \<Rightarrow> int box option" where
  "valid_box lib window extent =
     map_option to_int
       (from_shapely (transform (to_window_frame lib window) (valid_window window extent)))"

text \<open>Lines 54 to 63: the mask of the extent.\<close>

definition extent_mask :: "geo_lib \<Rightarrow> ndarray \<Rightarrow> int box \<Rightarrow> real box \<Rightarrow> error + ndarray" where
  "extent_mask lib raster window extent =
     (if is_empty (valid_window window extent) then Inr (fill_all raster 0)
      else case valid_box lib window extent of
             None \<Rightarrow> Inl IndexError
           | Some vw \<Rightarrow>
               (case np_zeros (out_shape window) of
                  Inl e \<Rightarrow> Inl e
                | Inr new_raster \<Rightarrow>
                    setitem new_raster (ymin vw, ymax vw) (xmin vw, xmax vw)
                      (getitem raster (ymin vw, ymax vw) (xmin vw, xmax vw))))"

text \<open>
  \<^verbatim>\<open>geojson_to_raster(str_tree, rasterizer_options, window, extent, crs_transformer)\<close>; the
  last argument is never used and is left out.
\<close>

definition geojson_to_raster ::
  "geo_lib \<Rightarrow> (geometry \<times> int) list \<Rightarrow> rasterizer_options \<Rightarrow> int box \<Rightarrow> real box
     \<Rightarrow> error + ndarray" where
  "geojson_to_raster lib str_tree opts window extent =
     (case burn_in lib str_tree opts window of
        Inl e \<Rightarrow> Inl e
      | Inr raster \<Rightarrow> extent_mask lib raster window extent)"

section \<open>The rasterized source\<close>

text \<open>
  The attribute \<^verbatim>\<open>str_tree\<close> of a source does not exist before the first activation, is
  an index after \<^verbatim>\<open>_activate\<close> and is \<^verbatim>\<open>None\<close> after \<^verbatim>\<open>_deactivate\<close>.

  Modelled from the spec: the vector source and \<^verbatim>\<open>geojson_to_shapes\<close> are not part of the
  source file; the field \<open>vector_source\<close> holds the collection of (geometry, class id)
  pairs that the collaborator supplies at activation.
\<close>

datatype index_attr = Unset | PyNone | Tree "(geometry \<times> int) list"

record rasterized_source =
  vector_source :: "(geometry \<times> int) list"
  options :: rasterizer_options
  extent :: "real box"
  activated :: bool
  str_tree :: index_attr

text \<open>\<^verbatim>\<open>__init__\<close>.\<close>

definition init_source ::
  "(geometry \<times> int) list \<Rightarrow> rasterizer_options \<Rightarrow> real box \<Rightarrow> rasterized_source" where
  "init_source vs opts ext =
     \<lparr>vector_source = vs, options = opts, extent = ext, activated = False, str_tree = Unset\<rparr>"

definition get_extent :: "rasterized_source \<Rightarrow> real box" where
  "get_extent s = extent s"

definition get_dtype :: "rasterized_source \<Rightarrow> dtype" where
  "get_dtype s = uint8"

text \<open>
  \<^verbatim>\<open>_get_chip\<close>: the result and the source after the call. Reading an index that is not
  there raises \<^verbatim>\<open>AttributeError\<close>.
\<close>

definition get_chip ::
  "geo_lib \<Rightarrow> rasterized_source \<Rightarrow> int box \<Rightarrow> (error + ndarray3) \<times> rasterized_source" where
  "get_chip lib s window =
     (if \<not> activated s
      then (Inl (ActivationError ''GeoJSONSource must be activated before use''), s)
      else case str_tree s of
             Tree t \<Rightarrow>
               (case geojson_to_raster lib t (options s) window (get_extent s) of
                  Inl e \<Rightarrow> (Inl e, s)
                | Inr chip \<Rightarrow> (Inr (expand_dims_2 chip), s))
           | _ \<Rightarrow> (Inl AttributeError, s))"

text \<open>\<^verbatim>\<open>_activate\<close> and \<^verbatim>\<open>_deactivate\<close>.\<close>

definition activate :: "rasterized_source \<Rightarrow> rasterized_source" where
  "activate s = s\<lparr>str_tree := Tree (vector_source s), activated := True\<rparr>"

definition deactivate :: "rasterized_source \<Rightarrow> rasterized_source" where
  "deactivate s = s\<lparr>str_tree := PyNone, activated := False\<rparr>"

text \<open>A sequence of calls on a source; the result of a \<^verbatim>\<open>get_chip\<close> is dropped.\<close>

datatype call = Activate | Deactivate | GetChip "int box"

fun step :: "geo_lib \<Rightarrow> rasterized_source \<Rightarrow> call \<Rightarrow> rasterized_source" where
  "step lib s Activate = activate s"
| "step lib s Deactivate = deactivate s"
| "step lib s (GetChip window) = snd (get_chip lib s window)"

definition run :: "geo_lib \<Rightarrow> rasterized_source \<Rightarrow> call list \<Rightarrow> rasterized_source" where
  "run lib s calls = foldl (step lib) s calls"

section \<open>Two instances of the parameters\<close>

text \<open>
  An instance of the library parameters that treats every geometry through its bounding
  rectangle: the index returns every stored geometry as a candidate, the intersection
  keeps a geometry that lies within the bounds of the other and is empty otherwise, the
  buffer is the bounding rectangle grown by the distance, and the rasterizer paints the
  pixels whose centre lies in the bounding rectangle of a shape, later shapes over
  earlier ones. Its subtraction is exact. The second instance rounds every difference
  to the nearest multiple of a quarter, as a small picture of the rounding of doubles.
\<close>

definition bounds_within :: "geometry \<Rightarrow> geometry \<Rightarrow> bool" where
  "bounds_within g h =
     (case bounds g of
        None \<Rightarrow> False
      | Some (gx0, gy0, gx1, gy1) \<Rightarrow>
          (case bounds h of
             None \<Rightarrow> False
           | Some (hx0, hy0, hx1, hy1) \<Rightarrow> hx0 \<le> gx0 \<and> hy0 \<le> gy0 \<and> gx1 \<le> hx1 \<and> gy1 \<le> hy1))"

definition bbox_intersection :: "geometry \<Rightarrow> geometry \<Rightarrow> geometry" where
  "bbox_intersection g h = (if bounds_within g h then g else GeometryCollection [])"

definition bbox_buffer :: "geometry \<Rightarrow> real \<Rightarrow> geometry" where
  "bbox_buffer g d =
     (case bounds g of
        None \<Rightarrow> Polygon [] []
      | Some (x0, y0, x1, y1) \<Rightarrow>
          to_shapely \<lparr>ymin = y0 - d, xmin = x0 - d, ymax = y1 + d, xmax = x1 + d\<rparr>)"

definition covers :: "geometry \<Rightarrow> nat \<Rightarrow> nat \<Rightarrow> bool" where
  "covers g i j =
     (case bounds g of
        None \<Rightarrow> False
      | Some (x0, y0, x1, y1) \<Rightarrow>
          x0 \<le> real j + 1 / 2 \<and> real j + 1 / 2 \<le> x1 \<and> y0 \<le> real i + 1 / 2 \<and> real i + 1 / 2 \<le> y1)"

definition bbox_rasterize :: "(geometry \<times> int) list \<Rightarrow> int \<times> int \<Rightarrow> int \<Rightarrow> dtype \<Rightarrow> ndarray" where
  "bbox_rasterize shapes sh fill dt =
     \<lparr>dtype = dt, shape = (nat (fst sh), nat (snd sh)),
      items = map (\<lambda>i. map (\<lambda>j. cast dt (fold (\<lambda>(g, c) v. if covers g i j then c else v) shapes fill))
                          [0..<nat (snd sh)]) [0..<nat (fst sh)]\<rparr>"

definition bbox_lib :: geo_lib where
  "bbox_lib = \<lparr>query = (\<lambda>t q. t), intersection = bbox_intersection, buffer = bbox_buffer,
               rasterize = bbox_rasterize, float_sub = (\<lambda>x a. x - a)\<rparr>"

definition quarter_sub :: "real \<Rightarrow> real \<Rightarrow> real" where
  "quarter_sub x a = real_of_int \<lfloor>4 * (x - a) + 1 / 2\<rfloor> / 4"

definition quarter_lib :: geo_lib where
  "quarter_lib = bbox_lib\<lparr>float_sub := quarter_sub\<rparr>"

section \<open>Well-formed grids and the contracts of the parameters\<close>

text \<open>
  A grid is well formed when its rows agree with its shape. The call of \<open>rasterize\<close> made
  for a window honours its contract when it returns a well-formed grid of the requested
  \<open>out_shape\<close>.
\<close>

definition wf_grid :: "ndarray \<Rightarrow> bool" where
  "wf_grid a = (length (items a) = fst (shape a) \<and> list_all (\<lambda>row. length row = snd (shape a)) (items a))"

definition rasterize_ok :: "geo_lib \<Rightarrow> (geometry \<times> int) list \<Rightarrow> rasterizer_options \<Rightarrow> int box \<Rightarrow> bool" where
  "rasterize_ok lib tree opts window =
     (let r = rasterize lib (window_shapes lib tree (line_buffer opts) window) (out_shape window)
                (background_class_id opts) uint8
      in shape r = (nat (get_height window), nat (get_width window)) \<and> wf_grid r)"

text \<open>
  What the proofs use of the subtraction of doubles, for the two subtractions that
  \<^verbatim>\<open>to_window_frame\<close> makes for a window: rounding keeps the order of the results, the
  difference of a double with itself is 0, and the width and height of the window, being
  integers, are computed without rounding.
\<close>

definition float_sub_ok :: "geo_lib \<Rightarrow> int box \<Rightarrow> bool" where
  "float_sub_ok lib w \<longleftrightarrow>
     (\<forall>x x'. x \<le> x' \<longrightarrow>
        float_sub lib x (real_of_int (xmin w)) \<le> float_sub lib x' (real_of_int (xmin w))) \<and>
     (\<forall>y y'. y \<le> y' \<longrightarrow>
        float_sub lib y (real_of_int (ymin w)) \<le> float_sub lib y' (real_of_int (ymin w))) \<and>
     float_sub lib (real_of_int (xmin w)) (real_of_int (xmin w)) = 0 \<and>
     float_sub lib (real_of_int (ymin w)) (real_of_int (ymin w)) = 0 \<and>
     float_sub lib (real_of_int (xmax w)) (real_of_int (xmin w)) = real_of_int (xmax w - xmin w) \<and>
     float_sub lib (real_of_int (ymax w)) (real_of_int (ymin w)) = real_of_int (ymax w - ymin w)"

text \<open>The bounds of the valid part of a window, before it is moved to the window's frame.\<close>

definition valid_bounds :: "int box \<Rightarrow> real box \<Rightarrow> real box" where
  "valid_bounds w e = overlap (real_box w) e"

text \<open>A source holds an index when its attribute \<^verbatim>\<open>str_tree\<close> is a built index.\<close>

definition has_index :: "rasterized_source \<Rightarrow> bool" where
  "has_index s = (case str_tree s of Tree t \<Rightarrow> True | _ \<Rightarrow> False)"

section \<open>Example inputs\<close>

text \<open>
  A window of two rows and three columns at the origin, one rectangle of class 5 in its
  upper left corner, an extent that covers only the middle column of the window, an
  extent far away from the window, and a source before and after activation.
\<close>

definition demo_window :: "int box" where
  "demo_window = \<lparr>ymin = 0, xmin = 0, ymax = 2, xmax = 3\<rparr>"

definition demo_tree :: "(geometry \<times> int) list" where
  "demo_tree = [(to_shapely \<lparr>ymin = 0, xmin = 0, ymax = 1, xmax = 2\<rparr>, 5)]"

definition demo_options :: rasterizer_options where
  "demo_options = \<lparr>line_buffer = 1, background_class_id = 2\<rparr>"

definition demo_extent :: "real box" where
  "demo_extent = \<lparr>ymin = 0, xmin = 1, ymax = 10, xmax = 5 / 2\<rparr>"

definition far_extent :: "real box" where
  "far_extent = \<lparr>ymin = 0, xmin = 5, ymax = 10, xmax = 25\<rparr>"

definition wide_extent :: "real box" where
  "wide_extent = \<lparr>ymin = 0, xmin = 0, ymax = 10, xmax = 10\<rparr>"

definition idle_source :: rasterized_source where
  "idle_source = init_source demo_tree demo_options demo_extent"

definition demo_source :: rasterized_source where
  "demo_source = activate idle_source"

text \<open>
  A geometry that lies outside the window, so that nothing is left of the index after
  clipping; sources over it, one with a background class above 255; a source that
  differs from \<open>demo_source\<close> only in its vector source; and an extent whose right edge,
  2.9, is rounded to 3 by the subtraction of \<open>quarter_lib\<close>.
\<close>

definition off_tree :: "(geometry \<times> int) list" where
  "off_tree = [(to_shapely \<lparr>ymin = 0, xmin = 5, ymax = 1, xmax = 6\<rparr>, 7)]"

definition off_source :: rasterized_source where
  "off_source = activate (init_source off_tree demo_options wide_extent)"

definition source_300 :: rasterized_source where
  "source_300 =
     activate (init_source off_tree \<lparr>line_buffer = 1, background_class_id = 300\<rparr> wide_extent)"


definition round_extent :: "real box" where
  "round_extent = \<lparr>ymin = 0, xmin = 1, ymax = 10, xmax = 29 / 10\<rparr>"





section \<open>Geometries that differ in the third coordinate only\<close>

text \<open>
  Two labelled geometries have the same footprint when they agree after \<open>force_2d\<close>. A
  library works on footprints when the candidates of the index, the footprint of an
  intersection and the footprint of a buffer depend only on the footprints of the
  geometries given, as Shapely's operations do. \<open>tree_3d\<close> is \<open>demo_tree\<close> with a third
  coordinate on every point.
\<close>

definition force_2d_shape :: "geometry \<times> int \<Rightarrow> geometry \<times> int" where
  "force_2d_shape sc = (case sc of (s, c) \<Rightarrow> (force_2d s, c))"

definition z_oblivious :: "geo_lib \<Rightarrow> bool" where
  "z_oblivious lib \<longleftrightarrow>
     (\<forall>t q. map force_2d_shape (query lib t q) = map force_2d_shape (query lib (map force_2d_shape t) q)) \<and>
     (\<forall>g h. force_2d (intersection lib g h) = force_2d (intersection lib (force_2d g) h)) \<and>
     (\<forall>g d. force_2d (buffer lib g d) = force_2d (buffer lib (force_2d g) d))"

definition tree_3d :: "(geometry \<times> int) list" where
  "tree_3d = [(Polygon [(2, 0, Some 7), (2, 1, Some 8), (0, 1, Some 9), (0, 0, Some 7), (2, 0, Some 7)] [], 5)]"

section \<open>Auxiliary facts\<close>

lemma wf_grid_row: "wf_grid a \<Longrightarrow> i < fst (shape a) \<Longrightarrow> length (items a ! i) = snd (shape a)"
  by (simp add: wf_grid_def list_all_length)

lemma slice_index_nat: "0 \<le> i \<Longrightarrow> i \<le> int n \<Longrightarrow> slice_index i n = nat i"
  by (simp add: slice_index_def)

lemma np_full_Inr:
  "0 \<le> fst sh \<Longrightarrow> 0 \<le> snd sh \<Longrightarrow>
   np_full sh v dt = Inr \<lparr>dtype = dt, shape = (nat (fst sh), nat (snd sh)),
       items = replicate (nat (fst sh)) (replicate (nat (snd sh)) (cast dt v))\<rparr>"
  by (simp add: np_full_def)

lemma getitem_shape:
  "0 \<le> y0 \<Longrightarrow> y0 \<le> y1 \<Longrightarrow> y1 \<le> int (fst (shape a)) \<Longrightarrow>
   0 \<le> x0 \<Longrightarrow> x0 \<le> x1 \<Longrightarrow> x1 \<le> int (snd (shape a)) \<Longrightarrow>
   shape (getitem a (y0, y1) (x0, x1)) = (nat y1 - nat y0, nat x1 - nat x0)"
  by (simp add: getitem_def Let_def slice_index_nat)

lemma getitem_nth:
  assumes "wf_grid a" "0 \<le> y0" "y0 \<le> y1" "y1 \<le> int (fst (shape a))"
    "0 \<le> x0" "x0 \<le> x1" "x1 \<le> int (snd (shape a))"
    "i < nat y1 - nat y0" "j < nat x1 - nat x0"
  shows "items (getitem a (y0, y1) (x0, x1)) ! i ! j = items a ! (nat y0 + i) ! (nat x0 + j)"
proof -
  have len: "length (items a) = fst (shape a)" using assms(1) by (simp add: wf_grid_def)
  have row: "length (items a ! (nat y0 + i)) = snd (shape a)"
    using assms by (intro wf_grid_row) auto
  have i: "i < length (take (nat y1 - nat y0) (drop (nat y0) (items a)))"
    using assms len by auto
  have "items (getitem a (y0, y1) (x0, x1)) ! i
        = take (nat x1 - nat x0) (drop (nat x0) (items a ! (nat y0 + i)))"
    using assms i len by (simp add: getitem_def Let_def slice_index_nat)
  also have "\<dots> ! j = items a ! (nat y0 + i) ! (nat x0 + j)"
    using assms row by simp
  finally show ?thesis .
qed

lemma setitem_nth:
  assumes wfa: "wf_grid a" and sha: "shape a = (h, w)"
    and y: "0 \<le> y0" "y0 \<le> y1" "y1 \<le> int h"
    and x: "0 \<le> x0" "x0 \<le> x1" "x1 \<le> int w"
    and shs: "shape src = (nat y1 - nat y0, nat x1 - nat x0)"
  shows "\<exists>r. setitem a (y0, y1) (x0, x1) src = Inr r \<and> dtype r = dtype a \<and> shape r = (h, w) \<and>
           wf_grid r \<and>
           (\<forall>i < h. \<forall>j < w.
              items r ! i ! j =
                (if nat y0 \<le> i \<and> i < nat y1 \<and> nat x0 \<le> j \<and> j < nat x1
                 then cast (dtype a) (items src ! (i - nat y0) ! (j - nat x0))
                 else items a ! i ! j))"
proof -
  define r where "r = a\<lparr>items :=
                map (\<lambda>(i, row). map (\<lambda>(j, v).
                       if nat y0 \<le> i \<and> i < nat y1 \<and> nat x0 \<le> j \<and> j < nat x1
                       then cast (dtype a)
                              (items src ! (if nat y1 - nat y0 = 1 then 0 else i - nat y0)
                                         ! (if nat x1 - nat x0 = 1 then 0 else j - nat x0))
                       else v) (enumerate 0 row)) (enumerate 0 (items a))\<rparr>"
  have len: "length (items a) = h" using wfa sha by (simp add: wf_grid_def)
  have rows: "length (items a ! i) = w" if "i < h" for i
    using wf_grid_row[OF wfa, of i] that sha by simp
  have eq: "setitem a (y0, y1) (x0, x1) src = Inr r"
    using sha y x shs by (simp add: setitem_def Let_def slice_index_nat r_def)
  have lenr: "length (items r) = h" using len by (simp add: r_def)
  have rowr: "length (items r ! i) = w" if "i < h" for i
    using that len rows[OF that] by (simp add: r_def nth_enumerate_eq)
  have wf: "wf_grid r"
    unfolding wf_grid_def list_all_length using lenr rowr sha by (simp add: r_def)
  have px: "items r ! i ! j =
                (if nat y0 \<le> i \<and> i < nat y1 \<and> nat x0 \<le> j \<and> j < nat x1
                 then cast (dtype a) (items src ! (i - nat y0) ! (j - nat x0))
                 else items a ! i ! j)"
    if ij: "i < h" "j < w" for i j
  proof -
    have yi: "(if nat y1 - nat y0 = 1 then 0 else i - nat y0) = i - nat y0"
      if "nat y0 \<le> i" "i < nat y1" using that by auto
    have xj: "(if nat x1 - nat x0 = 1 then 0 else j - nat x0) = j - nat x0"
      if "nat x0 \<le> j" "j < nat x1" using that by auto
    have "items r ! i ! j =
            (if nat y0 \<le> i \<and> i < nat y1 \<and> nat x0 \<le> j \<and> j < nat x1
             then cast (dtype a)
                      (items src ! (if nat y1 - nat y0 = 1 then 0 else i - nat y0)
                                 ! (if nat x1 - nat x0 = 1 then 0 else j - nat x0))
             else items a ! i ! j)"
      using ij len rows[OF ij(1)] by (simp add: r_def nth_enumerate_eq)
    then show ?thesis using yi xj by presburger
  qed
  have dt: "dtype r = dtype a" and sh: "shape r = (h, w)" using sha by (simp_all add: r_def)
  show ?thesis
  proof (intro exI[of _ r] conjI allI impI)
    show "setitem a (y0, y1) (x0, x1) src = Inr r" by (rule eq)
    show "dtype r = dtype a" by (rule dt)
    show "shape r = (h, w)" by (rule sh)
    show "wf_grid r" by (rule wf)
    show "items r ! i ! j =
                (if nat y0 \<le> i \<and> i < nat y1 \<and> nat x0 \<le> j \<and> j < nat x1
                 then cast (dtype a) (items src ! (i - nat y0) ! (j - nat x0))
                 else items a ! i ! j)" if "i < h" "j < w" for i j
      by (rule px[OF that])
  qed
qed

lemma np_zeros_Inr:
  "0 \<le> fst sh \<Longrightarrow> 0 \<le> snd sh \<Longrightarrow>
   np_zeros sh = Inr \<lparr>dtype = float64, shape = (nat (fst sh), nat (snd sh)),
       items = replicate (nat (fst sh)) (replicate (nat (snd sh)) 0)\<rparr>"
  by (simp add: np_zeros_def np_full_def cast_def)

lemma wf_grid_replicate:
  "wf_grid \<lparr>dtype = dt, shape = (h, w), items = replicate h (replicate w v)\<rparr>"
  by (simp add: wf_grid_def list_all_length)

lemma fill_all_shape: "shape (fill_all a v) = shape a" "dtype (fill_all a v) = dtype a"
  by (simp_all add: fill_all_def)

lemma wf_grid_fill_all: "wf_grid a \<Longrightarrow> wf_grid (fill_all a v)"
  by (simp add: wf_grid_def fill_all_def list_all_length)

lemma expand_dims_2_nth:
  assumes "wf_grid r" "i < fst (shape r)" "j < snd (shape r)"
  shows "items3 (expand_dims_2 r) ! i ! j = [items r ! i ! j]"
proof -
  have "length (items r) = fst (shape r)" using assms(1) by (simp add: wf_grid_def)
  moreover have "length (items r ! i) = snd (shape r)" by (rule wf_grid_row[OF assms(1,2)])
  ultimately show ?thesis using assms(2,3) by (simp add: expand_dims_2_def)
qed

lemma get_chip_state: "snd (get_chip lib s w) = s"
  by (simp add: get_chip_def split: index_attr.splits sum.splits)

lemma run_snoc: "run lib s (cs @ [c]) = step lib (run lib s cs) c"
  by (simp add: run_def)

lemma run_invariant:
  "(activated (run lib (init_source vs opts ext) cs) \<longleftrightarrow> has_index (run lib (init_source vs opts ext) cs)) \<and>
   vector_source (run lib (init_source vs opts ext) cs) = vs"
proof (induction cs rule: rev_induct)
  case Nil
  then show ?case by (simp add: run_def init_source_def has_index_def)
next
  case (snoc c cs)
  then show ?case
    by (cases c) (simp_all add: run_snoc activate_def deactivate_def has_index_def get_chip_state)
qed

lemma mask_shape:
  assumes hw: "0 \<le> h" "0 \<le> w" and sh: "shape raster = (nat h, nat w)"
  shows "\<exists>z r. np_zeros (h, w) = Inr z \<and>
           setitem z ys xs (getitem raster ys xs) = Inr r \<and>
           dtype r = float64 \<and> shape r = (nat h, nat w) \<and> wf_grid r"
proof -
  define z where "z = \<lparr>dtype = float64, shape = (nat h, nat w),
       items = replicate (nat h) (replicate (nat w) (0::int))\<rparr>"
  have zeros: "np_zeros (h, w) = Inr z"
    using hw by (simp add: np_zeros_Inr z_def)
  have shz: "shape z = (nat h, nat w)" by (simp add: z_def)
  have lenz: "length (items z) = nat h" by (simp add: z_def)
  have rowz: "length (items z ! i) = nat w" if "i < nat h" for i
    using that by (simp add: z_def)
  define src where "src = getitem raster ys xs"
  have shsrc: "shape src =
      (slice_index (snd ys) (nat h) - slice_index (fst ys) (nat h),
       slice_index (snd xs) (nat w) - slice_index (fst xs) (nat w))"
    by (simp add: src_def getitem_def Let_def sh)
  obtain r where set: "setitem z ys xs src = Inr r" and dtr: "dtype r = dtype z"
    and shr: "shape r = shape z" and lenr: "length (items r) = length (items z)"
    and rowr: "\<And>i. i < length (items z) \<Longrightarrow> length (items r ! i) = length (items z ! i)"
  proof -
    have "\<exists>r. setitem z ys xs src = Inr r \<and> dtype r = dtype z \<and> shape r = shape z \<and>
             length (items r) = length (items z) \<and>
             (\<forall>i < length (items z). length (items r ! i) = length (items z ! i))"
      by (simp add: setitem_def Let_def shsrc shz nth_enumerate_eq split_def)
    then show ?thesis using that by blast
  qed
  have wf: "wf_grid r"
    unfolding wf_grid_def list_all_length
    using lenr rowr lenz rowz shr shz by simp
  show ?thesis
    using zeros set dtr shr shz wf unfolding src_def by (auto simp: z_def)
qed

lemma mask_pixels:
  assumes hw: "0 \<le> h" "0 \<le> w"
    and sh: "shape raster = (nat h, nat w)" and wfr: "wf_grid raster"
    and y: "0 \<le> y0" "y0 \<le> y1" "y1 \<le> h"
    and x: "0 \<le> x0" "x0 \<le> x1" "x1 \<le> w"
  shows "\<exists>z r. np_zeros (h, w) = Inr z \<and>
           setitem z (y0, y1) (x0, x1) (getitem raster (y0, y1) (x0, x1)) = Inr r \<and>
           (\<forall>i < nat h. \<forall>j < nat w.
              items r ! i ! j =
                (if y0 \<le> int i \<and> int i < y1 \<and> x0 \<le> int j \<and> int j < x1
                 then items raster ! i ! j else 0))"
proof -
  define z where "z = \<lparr>dtype = float64, shape = (nat h, nat w),
       items = replicate (nat h) (replicate (nat w) (0::int))\<rparr>"
  have zeros: "np_zeros (h, w) = Inr z"
    using hw by (simp add: np_zeros_Inr z_def)
  have wfz: "wf_grid z" unfolding z_def by (rule wf_grid_replicate)
  have shz: "shape z = (nat h, nat w)" and dtz: "dtype z = float64"
    by (simp_all add: z_def)
  define src where "src = getitem raster (y0, y1) (x0, x1)"
  have shsrc: "shape src = (nat y1 - nat y0, nat x1 - nat x0)"
    unfolding src_def using y x hw sh by (intro getitem_shape) simp_all
  have "\<exists>r. setitem z (y0, y1) (x0, x1) src = Inr r \<and> dtype r = dtype z \<and>
           shape r = (nat h, nat w) \<and> wf_grid r \<and>
           (\<forall>i < nat h. \<forall>j < nat w.
              items r ! i ! j =
                (if nat y0 \<le> i \<and> i < nat y1 \<and> nat x0 \<le> j \<and> j < nat x1
                 then cast (dtype z) (items src ! (i - nat y0) ! (j - nat x0))
                 else items z ! i ! j))"
  proof (rule setitem_nth[OF wfz shz _ _ _ _ _ _ shsrc])
    show "0 \<le> y0" "y0 \<le> y1" "0 \<le> x0" "x0 \<le> x1" using y x by simp_all
    show "y1 \<le> int (nat h)" using y hw by simp
    show "x1 \<le> int (nat w)" using x hw by simp
  qed
  then obtain r where set: "setitem z (y0, y1) (x0, x1) src = Inr r"
    and px: "\<forall>i < nat h. \<forall>j < nat w.
              items r ! i ! j =
                (if nat y0 \<le> i \<and> i < nat y1 \<and> nat x0 \<le> j \<and> j < nat x1
                 then cast (dtype z) (items src ! (i - nat y0) ! (j - nat x0))
                 else items z ! i ! j)"
    by blast
  have pixel: "items r ! i ! j =
                (if y0 \<le> int i \<and> int i < y1 \<and> x0 \<le> int j \<and> int j < x1
                 then items raster ! i ! j else 0)"
    if ij: "i < nat h" "j < nat w" for i j
  proof -
    have pxij: "items r ! i ! j =
                (if nat y0 \<le> i \<and> i < nat y1 \<and> nat x0 \<le> j \<and> j < nat x1
                 then cast (dtype z) (items src ! (i - nat y0) ! (j - nat x0))
                 else items z ! i ! j)"
      using px ij by blast
    show ?thesis
    proof (cases "nat y0 \<le> i \<and> i < nat y1 \<and> nat x0 \<le> j \<and> j < nat x1")
      case True
      have int_in: "y0 \<le> int i \<and> int i < y1 \<and> x0 \<le> int j \<and> int j < x1"
        using True y x by auto
      have "items src ! (i - nat y0) ! (j - nat x0)
            = items raster ! (nat y0 + (i - nat y0)) ! (nat x0 + (j - nat x0))"
        unfolding src_def
      proof (rule getitem_nth[OF wfr])
        show "0 \<le> y0" "y0 \<le> y1" "0 \<le> x0" "x0 \<le> x1" using y x by simp_all
        show "y1 \<le> int (fst (shape raster))" using y hw sh by simp
        show "x1 \<le> int (snd (shape raster))" using x hw sh by simp
        show "i - nat y0 < nat y1 - nat y0" using True by linarith
        show "j - nat x0 < nat x1 - nat x0" using True by linarith
      qed
      also have "\<dots> = items raster ! i ! j" using True by simp
      finally have src_eq: "items src ! (i - nat y0) ! (j - nat x0) = items raster ! i ! j" .
      have "items r ! i ! j = cast (dtype z) (items src ! (i - nat y0) ! (j - nat x0))"
        using pxij True by simp
      also have "\<dots> = items raster ! i ! j"
        using src_eq dtz by (simp add: cast_def)
      finally have "items r ! i ! j = items raster ! i ! j" .
      then show ?thesis using int_in by simp
    next
      case False
      have not_in: "\<not> (y0 \<le> int i \<and> int i < y1 \<and> x0 \<le> int j \<and> int j < x1)"
        using False y x by auto
      have "items z ! i ! j = 0" using ij by (simp add: z_def)
      moreover have "items r ! i ! j = items z ! i ! j"
        using pxij False by simp
      ultimately have "items r ! i ! j = 0" by simp
      then show ?thesis by (simp only: if_not_P[OF not_in])
    qed
  qed
  show ?thesis
  proof (rule exI[of _ z], rule exI[of _ r], intro conjI allI impI)
    show "items r ! i ! j =
                (if y0 \<le> int i \<and> int i < y1 \<and> x0 \<le> int j \<and> int j < x1
                 then items raster ! i ! j else 0)"
      if "i < nat h" "j < nat w" for i j
      by (rule pixel[OF that])
  qed (use zeros set in \<open>simp_all add: src_def\<close>)
qed

lemma coords_transform: "coords (transform f g) = map (apply_func f) (coords g)"
  by (induction g) (simp_all add: map_concat comp_def cong: map_cong)

lemma is_empty_transform: "is_empty (transform f g) = is_empty g"
  by (simp add: is_empty_def coords_transform)

lemma from_shapely_Some: "\<not> is_empty g \<Longrightarrow> \<exists>b. from_shapely g = Some b"
  by (auto simp: from_shapely_def bounds_def is_empty_def split: list.splits)

lemma valid_box_Some: "\<not> is_empty (valid_window w e) \<Longrightarrow> \<exists>vw. valid_box lib w e = Some vw"
  using from_shapely_Some[of "transform (to_window_frame lib w) (valid_window w e)"]
  by (auto simp: valid_box_def is_empty_transform)

lemma is_empty_valid_window:
  "is_empty (valid_window w e) \<longleftrightarrow>
     xmax (valid_bounds w e) < xmin (valid_bounds w e) \<or> ymax (valid_bounds w e) < ymin (valid_bounds w e)"
  by (simp add: valid_window_def box_intersection_def valid_bounds_def Let_def
      is_empty_def to_shapely_def)

lemma valid_bounds_wf:
  assumes "ymin w \<le> ymax w" "xmin w \<le> xmax w" "ymin e \<le> ymax e" "xmin e \<le> xmax e"
  shows "valid_bounds w e =
           \<lparr>ymin = max (real_of_int (ymin w)) (ymin e), xmin = max (real_of_int (xmin w)) (xmin e),
            ymax = min (real_of_int (ymax w)) (ymax e), xmax = min (real_of_int (xmax w)) (xmax e)\<rparr>"
proof -
  have a: "min (real_of_int (ymin w)) (real_of_int (ymax w)) = real_of_int (ymin w)"
          "min (real_of_int (xmin w)) (real_of_int (xmax w)) = real_of_int (xmin w)"
          "max (real_of_int (ymin w)) (real_of_int (ymax w)) = real_of_int (ymax w)"
          "max (real_of_int (xmin w)) (real_of_int (xmax w)) = real_of_int (xmax w)"
    using assms(1,2) by simp_all
  have b: "min (ymin e) (ymax e) = ymin e" "min (xmin e) (xmax e) = xmin e"
          "max (ymin e) (ymax e) = ymax e" "max (xmin e) (xmax e) = xmax e"
    using assms(3,4) by simp_all
  show ?thesis
    unfolding valid_bounds_def overlap_def by (simp add: real_box_def a b)
qed

lemma is_empty_valid_window_wf:
  assumes "ymin w \<le> ymax w" "xmin w \<le> xmax w" "ymin e \<le> ymax e" "xmin e \<le> xmax e"
  shows "is_empty (valid_window w e) \<longleftrightarrow>
           real_of_int (xmax w) < xmin e \<or> xmax e < real_of_int (xmin w) \<or>
           real_of_int (ymax w) < ymin e \<or> ymax e < real_of_int (ymin w)"
proof -
  have x: "(min (real_of_int (xmax w)) (xmax e) < max (real_of_int (xmin w)) (xmin e)) \<longleftrightarrow>
             real_of_int (xmax w) < xmin e \<or> xmax e < real_of_int (xmin w)"
    using assms(2,4) by (auto simp: min_def max_def)
  have y: "(min (real_of_int (ymax w)) (ymax e) < max (real_of_int (ymin w)) (ymin e)) \<longleftrightarrow>
             real_of_int (ymax w) < ymin e \<or> ymax e < real_of_int (ymin w)"
    using assms(1,3) by (auto simp: min_def max_def)
  show ?thesis
    unfolding is_empty_valid_window valid_bounds_wf[OF assms] using x y by auto
qed

lemma from_shapely_transform_valid_window:
  assumes ne: "\<not> is_empty (valid_window w e)"
    and mx: "float_sub lib (xmin (valid_bounds w e)) (real_of_int (xmin w))
               \<le> float_sub lib (xmax (valid_bounds w e)) (real_of_int (xmin w))"
    and my: "float_sub lib (ymin (valid_bounds w e)) (real_of_int (ymin w))
               \<le> float_sub lib (ymax (valid_bounds w e)) (real_of_int (ymin w))"
  shows "from_shapely (transform (to_window_frame lib w) (valid_window w e)) =
           Some \<lparr>ymin = float_sub lib (ymin (valid_bounds w e)) (real_of_int (ymin w)),
                 xmin = float_sub lib (xmin (valid_bounds w e)) (real_of_int (xmin w)),
                 ymax = float_sub lib (ymax (valid_bounds w e)) (real_of_int (ymin w)),
                 xmax = float_sub lib (xmax (valid_bounds w e)) (real_of_int (xmin w))\<rparr>"
proof -
  define c where "c = valid_bounds w e"
  define fx where "fx = (\<lambda>x. float_sub lib x (real_of_int (xmin w)))"
  define fy where "fy = (\<lambda>y. float_sub lib y (real_of_int (ymin w)))"
  have le: "fx (xmin c) \<le> fx (xmax c)" "fy (ymin c) \<le> fy (ymax c)"
    using mx my by (simp_all add: c_def fx_def fy_def)
  have tf: "apply_func (to_window_frame lib w) (x, y, z) = (fx x, fy y, None)" for x y z
    by (simp add: apply_func_def to_window_frame_def fx_def fy_def)
  have ne': "\<not> (xmax c < xmin c \<or> ymax c < ymin c)"
    using ne by (simp add: is_empty_valid_window c_def)
  have vw: "valid_window w e =
     (if xmin c = xmax c \<and> ymin c = ymax c then Point [(xmin c, ymin c, None)]
      else if xmin c = xmax c \<or> ymin c = ymax c
        then LineString [(xmin c, ymin c, None), (xmax c, ymax c, None)]
      else to_shapely c)"
    using ne'
    by (simp add: valid_window_def box_intersection_def valid_bounds_def[symmetric] Let_def
        c_def[symmetric])
  have "from_shapely (transform (to_window_frame lib w) (valid_window w e)) =
           Some \<lparr>ymin = fy (ymin c), xmin = fx (xmin c), ymax = fy (ymax c), xmax = fx (xmax c)\<rparr>"
    unfolding vw using le
    by (simp add: from_shapely_def bounds_def to_shapely_def tf min_absorb2 max_absorb1
        min_absorb1 max_absorb2)
  then show ?thesis by (simp add: c_def fx_def fy_def)
qed

lemma valid_box_eq:
  assumes ne: "\<not> is_empty (valid_window w e)" and ok: "float_sub_ok lib w"
  shows "valid_box lib w e =
           Some \<lparr>ymin = \<lfloor>float_sub lib (ymin (valid_bounds w e)) (real_of_int (ymin w))\<rfloor>,
                 xmin = \<lfloor>float_sub lib (xmin (valid_bounds w e)) (real_of_int (xmin w))\<rfloor>,
                 ymax = \<lfloor>float_sub lib (ymax (valid_bounds w e)) (real_of_int (ymin w))\<rfloor>,
                 xmax = \<lfloor>float_sub lib (xmax (valid_bounds w e)) (real_of_int (xmin w))\<rfloor>\<rparr>"
proof -
  have le: "xmin (valid_bounds w e) \<le> xmax (valid_bounds w e)"
           "ymin (valid_bounds w e) \<le> ymax (valid_bounds w e)"
    using ne by (simp_all add: is_empty_valid_window)
  have mx: "float_sub lib (xmin (valid_bounds w e)) (real_of_int (xmin w))
               \<le> float_sub lib (xmax (valid_bounds w e)) (real_of_int (xmin w))"
    using ok le(1) unfolding float_sub_ok_def by blast
  have my: "float_sub lib (ymin (valid_bounds w e)) (real_of_int (ymin w))
               \<le> float_sub lib (ymax (valid_bounds w e)) (real_of_int (ymin w))"
    using ok le(2) unfolding float_sub_ok_def by blast
  show ?thesis
    by (simp add: valid_box_def from_shapely_transform_valid_window[OF ne mx my] to_int_def)
qed

lemma valid_bounds_lo:
  assumes "ymin w \<le> ymax w" "xmin w \<le> xmax w"
  shows "real_of_int (xmin w) \<le> xmin (valid_bounds w e)" "real_of_int (ymin w) \<le> ymin (valid_bounds w e)"
proof -
  have "min (real_of_int (xmin w)) (real_of_int (xmax w)) = real_of_int (xmin w)"
       "min (real_of_int (ymin w)) (real_of_int (ymax w)) = real_of_int (ymin w)"
    using assms by (simp_all add: min_absorb1)
  then show "real_of_int (xmin w) \<le> xmin (valid_bounds w e)" "real_of_int (ymin w) \<le> ymin (valid_bounds w e)"
    by (simp_all add: valid_bounds_def overlap_def real_box_def)
qed

lemma valid_bounds_hi:
  assumes "ymin w \<le> ymax w" "xmin w \<le> xmax w"
  shows "xmax (valid_bounds w e) \<le> real_of_int (xmax w)" "ymax (valid_bounds w e) \<le> real_of_int (ymax w)"
proof -
  have "max (real_of_int (xmin w)) (real_of_int (xmax w)) = real_of_int (xmax w)"
       "max (real_of_int (ymin w)) (real_of_int (ymax w)) = real_of_int (ymax w)"
    using assms by (simp_all add: max_absorb2)
  then show "xmax (valid_bounds w e) \<le> real_of_int (xmax w)" "ymax (valid_bounds w e) \<le> real_of_int (ymax w)"
    by (simp_all add: valid_bounds_def overlap_def real_box_def)
qed

lemma valid_box_range:
  assumes wf: "ymin w \<le> ymax w" "xmin w \<le> xmax w"
    and ne: "\<not> is_empty (valid_window w e)" and ok: "float_sub_ok lib w"
    and vb: "valid_box lib w e = Some vw"
  shows "0 \<le> ymin vw \<and> ymin vw \<le> ymax vw \<and> ymax vw \<le> get_height w \<and>
         0 \<le> xmin vw \<and> xmin vw \<le> xmax vw \<and> xmax vw \<le> get_width w"
proof -
  define c where "c = valid_bounds w e"
  define fx where "fx = (\<lambda>x. float_sub lib x (real_of_int (xmin w)))"
  define fy where "fy = (\<lambda>y. float_sub lib y (real_of_int (ymin w)))"
  have monox: "fx a \<le> fx b" if "a \<le> b" for a b
    using ok that unfolding float_sub_ok_def fx_def by blast
  have monoy: "fy a \<le> fy b" if "a \<le> b" for a b
    using ok that unfolding float_sub_ok_def fy_def by blast
  have zero: "fx (real_of_int (xmin w)) = 0" "fy (real_of_int (ymin w)) = 0"
    using ok unfolding float_sub_ok_def fx_def fy_def by blast+
  have full: "fx (real_of_int (xmax w)) = real_of_int (get_width w)"
             "fy (real_of_int (ymax w)) = real_of_int (get_height w)"
    using ok unfolding float_sub_ok_def fx_def fy_def get_width_def get_height_def by blast+
  have le: "xmin c \<le> xmax c" "ymin c \<le> ymax c"
    using ne by (simp_all add: is_empty_valid_window c_def)
  have lo: "real_of_int (xmin w) \<le> xmin c" "real_of_int (ymin w) \<le> ymin c"
    unfolding c_def by (rule valid_bounds_lo[OF wf])+
  have hi: "xmax c \<le> real_of_int (xmax w)" "ymax c \<le> real_of_int (ymax w)"
    unfolding c_def by (rule valid_bounds_hi[OF wf])+
  have x0: "0 \<le> fx (xmin c)" using monox[OF lo(1)] zero(1) by simp
  have y0: "0 \<le> fy (ymin c)" using monoy[OF lo(2)] zero(2) by simp
  have x1: "fx (xmax c) \<le> real_of_int (get_width w)" using monox[OF hi(1)] full(1) by simp
  have y1: "fy (ymax c) \<le> real_of_int (get_height w)" using monoy[OF hi(2)] full(2) by simp
  have fl: "0 \<le> \<lfloor>fx (xmin c)\<rfloor>" "0 \<le> \<lfloor>fy (ymin c)\<rfloor>"
    using x0 y0 by simp_all
  have fh: "\<lfloor>fx (xmax c)\<rfloor> \<le> get_width w" "\<lfloor>fy (ymax c)\<rfloor> \<le> get_height w"
    using x1 y1 by (simp_all add: floor_le_iff)
  have fm: "\<lfloor>fx (xmin c)\<rfloor> \<le> \<lfloor>fx (xmax c)\<rfloor>" "\<lfloor>fy (ymin c)\<rfloor> \<le> \<lfloor>fy (ymax c)\<rfloor>"
    using monox[OF le(1)] monoy[OF le(2)] by (simp_all add: floor_mono)
  have "vw = \<lparr>ymin = \<lfloor>fy (ymin c)\<rfloor>, xmin = \<lfloor>fx (xmin c)\<rfloor>,
              ymax = \<lfloor>fy (ymax c)\<rfloor>, xmax = \<lfloor>fx (xmax c)\<rfloor>\<rparr>"
    using vb valid_box_eq[OF ne ok] by (simp add: c_def fx_def fy_def)
  then show ?thesis using fl fh fm by simp
qed

lemma extent_mask_empty:
  "is_empty (valid_window w e) \<Longrightarrow> extent_mask lib raster w e = Inr (fill_all raster 0)"
  by (simp add: extent_mask_def)

lemma extent_mask_shape:
  assumes wf: "ymin w \<le> ymax w" "xmin w \<le> xmax w"
    and ne: "\<not> is_empty (valid_window w e)"
    and sh: "shape raster = (nat (get_height w), nat (get_width w))"
  shows "\<exists>r. extent_mask lib raster w e = Inr r \<and> dtype r = float64 \<and>
           shape r = (nat (get_height w), nat (get_width w)) \<and> wf_grid r"
proof -
  obtain vw where vb: "valid_box lib w e = Some vw"
    using valid_box_Some[OF ne] by blast
  have hw: "0 \<le> get_height w" "0 \<le> get_width w"
    using wf by (simp_all add: get_height_def get_width_def)
  from mask_shape[OF hw sh, of "(ymin vw, ymax vw)" "(xmin vw, xmax vw)"]
  obtain z r where "np_zeros (get_height w, get_width w) = Inr z"
    "setitem z (ymin vw, ymax vw) (xmin vw, xmax vw)
       (getitem raster (ymin vw, ymax vw) (xmin vw, xmax vw)) = Inr r"
    "dtype r = float64" "shape r = (nat (get_height w), nat (get_width w))" "wf_grid r"
    by blast
  then show ?thesis
    using ne vb by (simp add: extent_mask_def out_shape_def)
qed

lemma extent_mask_pixels_aux:
  assumes wf: "ymin w \<le> ymax w" "xmin w \<le> xmax w"
    and ne: "\<not> is_empty (valid_window w e)" and ok: "float_sub_ok lib w"
    and sh: "shape raster = (nat (get_height w), nat (get_width w))"
    and wfr: "wf_grid raster"
    and vb: "valid_box lib w e = Some vw"
    and m: "extent_mask lib raster w e = Inr r"
    and ij: "i < nat (get_height w)" "j < nat (get_width w)"
  shows "items r ! i ! j =
           (if ymin vw \<le> int i \<and> int i < ymax vw \<and> xmin vw \<le> int j \<and> int j < xmax vw
            then items raster ! i ! j else 0)"
proof -
  have rng: "0 \<le> ymin vw \<and> ymin vw \<le> ymax vw \<and> ymax vw \<le> get_height w \<and>
         0 \<le> xmin vw \<and> xmin vw \<le> xmax vw \<and> xmax vw \<le> get_width w"
    by (rule valid_box_range[OF wf ne ok vb])
  have hw: "0 \<le> get_height w" "0 \<le> get_width w"
    using wf by (simp_all add: get_height_def get_width_def)
  have "\<exists>z r. np_zeros (get_height w, get_width w) = Inr z \<and>
           setitem z (ymin vw, ymax vw) (xmin vw, xmax vw)
             (getitem raster (ymin vw, ymax vw) (xmin vw, xmax vw)) = Inr r \<and>
           (\<forall>i < nat (get_height w). \<forall>j < nat (get_width w).
              items r ! i ! j =
                (if ymin vw \<le> int i \<and> int i < ymax vw \<and> xmin vw \<le> int j \<and> int j < xmax vw
                 then items raster ! i ! j else 0))"
    using rng by (intro mask_pixels[OF hw sh wfr]) simp_all
  then obtain z r' where z: "np_zeros (get_height w, get_width w) = Inr z"
    and s: "setitem z (ymin vw, ymax vw) (xmin vw, xmax vw)
             (getitem raster (ymin vw, ymax vw) (xmin vw, xmax vw)) = Inr r'"
    and px: "\<forall>i < nat (get_height w). \<forall>j < nat (get_width w).
              items r' ! i ! j =
                (if ymin vw \<le> int i \<and> int i < ymax vw \<and> xmin vw \<le> int j \<and> int j < xmax vw
                 then items raster ! i ! j else 0)"
    by blast
  have "extent_mask lib raster w e = Inr r'"
    using ne vb z s by (simp add: extent_mask_def out_shape_def)
  then have "r' = r" using m by simp
  then show ?thesis using px ij by blast
qed

lemma burn_in_Inr:
  assumes "ymin w \<le> ymax w" "xmin w \<le> xmax w"
  shows "\<exists>raster. burn_in lib t opts w = Inr raster"
  using assms by (simp add: burn_in_def Let_def np_full_def out_shape_def get_height_def get_width_def)

lemma burn_in_shape:
  assumes "ymin w \<le> ymax w" "xmin w \<le> xmax w" "rasterize_ok lib t opts w"
  shows "\<exists>raster. burn_in lib t opts w = Inr raster \<and>
           shape raster = (nat (get_height w), nat (get_width w)) \<and> wf_grid raster"
proof (cases "window_shapes lib t (line_buffer opts) w = []")
  case True
  have hw: "0 \<le> get_height w" "0 \<le> get_width w"
    using assms(1,2) by (simp_all add: get_height_def get_width_def)
  show ?thesis
    using True hw
    by (simp add: burn_in_def np_full_Inr out_shape_def wf_grid_replicate)
next
  case False
  then show ?thesis
    using assms(3) by (simp add: burn_in_def rasterize_ok_def Let_def)
qed

lemma map_const_grid:
  assumes "length xs = h" "\<forall>row \<in> set xs. length row = w"
  shows "map (map (\<lambda>_. v)) xs = replicate h (replicate w v)"
proof -
  have "map (map (\<lambda>_. v)) xs = map (\<lambda>row. replicate w v) xs"
    using assms(2) by (intro map_cong[OF refl]) (simp add: map_replicate_const)
  also have "\<dots> = replicate h (replicate w v)"
    using assms(1) by (simp add: map_replicate_const)
  finally show ?thesis .
qed

lemma const_grid:
  assumes "wf_grid r" "shape r = (h, w)" "\<forall>i < h. \<forall>j < w. items r ! i ! j = v"
  shows "items r = replicate h (replicate w v)"
proof (rule nth_equalityI)
  show len: "length (items r) = length (replicate h (replicate w v))"
    using assms(1,2) by (simp add: wf_grid_def)
  show "items r ! i = replicate h (replicate w v) ! i" if "i < length (items r)" for i
  proof (rule nth_equalityI)
    have i: "i < h" using that len by simp
    have row: "length (items r ! i) = w"
      using wf_grid_row[OF assms(1), of i] i assms(2) by simp
    show "length (items r ! i) = length (replicate h (replicate w v) ! i)"
      using row i by simp
    show "items r ! i ! j = replicate h (replicate w v) ! i ! j" if "j < length (items r ! i)" for j
      using assms(3) i that row by simp
  qed
qed

lemma fill_all_zero: "fill_all raster 0 = raster\<lparr>items := map (map (\<lambda>_. 0)) (items raster)\<rparr>"
  by (simp add: fill_all_def cast_def split: dtype.splits)

lemma geojson_to_raster_shape:
  assumes "ymin w \<le> ymax w" "xmin w \<le> xmax w" "rasterize_ok lib t opts w"
  shows "\<exists>r. geojson_to_raster lib t opts w e = Inr r \<and>
           shape r = (nat (get_height w), nat (get_width w)) \<and> wf_grid r"
proof -
  obtain raster where b: "burn_in lib t opts w = Inr raster"
    and sh: "shape raster = (nat (get_height w), nat (get_width w))" and wf: "wf_grid raster"
    using burn_in_shape[OF assms] by blast
  show ?thesis
  proof (cases "is_empty (valid_window w e)")
    case True
    then show ?thesis
      using b sh wf by (simp add: geojson_to_raster_def extent_mask_empty fill_all_shape wf_grid_fill_all)
  next
    case False
    from extent_mask_shape[OF assms(1,2) False sh]
    obtain r where "extent_mask lib raster w e = Inr r"
      "shape r = (nat (get_height w), nat (get_width w))" "wf_grid r"
      by blast
    then show ?thesis using b by (simp add: geojson_to_raster_def)
  qed
qed

lemma geojson_to_raster_no_activation_error:
  "geojson_to_raster lib t opts w e \<noteq> Inl (ActivationError m)"
  by (auto simp: geojson_to_raster_def burn_in_def extent_mask_def np_full_def np_zeros_def
      setitem_def Let_def split: sum.splits option.splits if_splits)

lemma geojson_to_raster_no_attribute_error:
  "geojson_to_raster lib t opts w e \<noteq> Inl AttributeError"
  by (auto simp: geojson_to_raster_def burn_in_def extent_mask_def np_full_def np_zeros_def
      setitem_def Let_def split: sum.splits option.splits if_splits)

lemma get_chip_no_attribute_error:
  assumes "activated s \<longleftrightarrow> has_index s"
  shows "fst (get_chip lib s w) \<noteq> Inl AttributeError"
  using assms geojson_to_raster_no_attribute_error
  by (auto simp: get_chip_def has_index_def split: index_attr.splits sum.splits)

lemma get_chip_activated:
  assumes "activated s" "str_tree s = Tree t"
  shows "get_chip lib s w =
           (case geojson_to_raster lib t (options s) w (extent s) of
              Inl e \<Rightarrow> Inl e | Inr chip \<Rightarrow> Inr (expand_dims_2 chip), s)"
  using assms by (simp add: get_chip_def get_extent_def split: sum.splits)

lemma get_chip_Inr:
  assumes "activated s" "str_tree s = Tree t" "ymin w \<le> ymax w" "xmin w \<le> xmax w"
    "rasterize_ok lib t (options s) w"
  shows "\<exists>r. geojson_to_raster lib t (options s) w (extent s) = Inr r \<and>
           shape r = (nat (get_height w), nat (get_width w)) \<and> wf_grid r \<and>
           fst (get_chip lib s w) = Inr (expand_dims_2 r)"
proof -
  obtain r where "geojson_to_raster lib t (options s) w (extent s) = Inr r"
    "shape r = (nat (get_height w), nat (get_width w))" "wf_grid r"
    using geojson_to_raster_shape[OF assms(3,4,5)] by blast
  then show ?thesis using assms(1,2) by (simp add: get_chip_def get_extent_def)
qed

lemma bbox_rasterize_ok: "rasterize_ok bbox_lib t opts w"
  by (simp add: rasterize_ok_def bbox_lib_def bbox_rasterize_def out_shape_def wf_grid_def
      list_all_length Let_def)

lemma quarter_rasterize_ok: "rasterize_ok quarter_lib t opts w"
  by (simp add: rasterize_ok_def quarter_lib_def bbox_lib_def bbox_rasterize_def out_shape_def
      wf_grid_def list_all_length Let_def)

lemma bbox_float_sub_ok: "float_sub_ok bbox_lib w"
  by (simp add: float_sub_ok_def bbox_lib_def)

lemma quarter_sub_mono: "x \<le> x' \<Longrightarrow> quarter_sub x a \<le> quarter_sub x' a"
  unfolding quarter_sub_def by (intro divide_right_mono) (simp_all add: floor_mono)

lemma quarter_sub_int: "quarter_sub (real_of_int b) (real_of_int a) = real_of_int (b - a)"
proof -
  have "\<lfloor>4 * (real_of_int b - real_of_int a) + 1 / 2\<rfloor> = 4 * (b - a)"
    by (rule floor_unique) simp_all
  then show ?thesis by (simp add: quarter_sub_def)
qed

lemma quarter_float_sub_ok: "float_sub_ok quarter_lib w"
  using quarter_sub_int[of "xmin w" "xmin w"] quarter_sub_int[of "ymin w" "ymin w"]
    quarter_sub_int[of "xmax w" "xmin w"] quarter_sub_int[of "ymax w" "ymin w"]
  by (simp add: float_sub_ok_def quarter_lib_def bbox_lib_def quarter_sub_mono)

lemma demo_window_wf: "ymin demo_window \<le> ymax demo_window" "xmin demo_window \<le> xmax demo_window"
  by (simp_all add: demo_window_def)

lemma far_outside:
  "real_of_int (xmax demo_window) < xmin far_extent \<or> xmax far_extent < real_of_int (xmin demo_window) \<or>
   real_of_int (ymax demo_window) < ymin far_extent \<or> ymax far_extent < real_of_int (ymin demo_window)"
  by (simp add: demo_window_def far_extent_def)

lemma far_extent_wf: "ymin far_extent \<le> ymax far_extent" "xmin far_extent \<le> xmax far_extent"
  by (simp_all add: far_extent_def)

lemma demo_burn_in:
  "burn_in bbox_lib demo_tree demo_options demo_window =
     Inr \<lparr>dtype = uint8, shape = (2, 3), items = [[5, 5, 2], [2, 2, 2]]\<rparr>"
  by code_simp

lemma round_extent_facts:
  "ymin round_extent \<le> ymax round_extent" "xmin round_extent \<le> xmax round_extent"
  "xmin round_extent \<le> real_of_int (xmax demo_window)" "real_of_int (xmin demo_window) \<le> xmax round_extent"
  "ymin round_extent \<le> real_of_int (ymax demo_window)" "real_of_int (ymin demo_window) \<le> ymax round_extent"
  by (simp_all add: round_extent_def demo_window_def)

lemma round_rect:
  "\<lparr>ymin = 0, xmin = 1, ymax = 2, xmax = 3\<rparr> =
     \<lparr>ymin = \<lfloor>float_sub quarter_lib (max (real_of_int (ymin demo_window)) (ymin round_extent))
                 (real_of_int (ymin demo_window))\<rfloor>,
      xmin = \<lfloor>float_sub quarter_lib (max (real_of_int (xmin demo_window)) (xmin round_extent))
                 (real_of_int (xmin demo_window))\<rfloor>,
      ymax = \<lfloor>float_sub quarter_lib (min (real_of_int (ymax demo_window)) (ymax round_extent))
                 (real_of_int (ymin demo_window))\<rfloor>,
      xmax = \<lfloor>float_sub quarter_lib (min (real_of_int (xmax demo_window)) (xmax round_extent))
                 (real_of_int (xmin demo_window))\<rfloor>\<rparr>"
  by (simp add: quarter_lib_def bbox_lib_def quarter_sub_def demo_window_def round_extent_def)

lemma round_burn_in:
  "burn_in quarter_lib demo_tree demo_options demo_window =
     Inr \<lparr>dtype = uint8, shape = (2, 3), items = [[5, 5, 2], [2, 2, 2]]\<rparr>"
  by code_simp

lemma round_raster:
  "geojson_to_raster quarter_lib demo_tree demo_options demo_window round_extent =
     Inr \<lparr>dtype = float64, shape = (2, 3), items = [[0, 5, 2], [0, 2, 2]]\<rparr>"
  by code_simp

lemma demo_source_facts:
  "activated demo_source" "str_tree demo_source = Tree demo_tree"
  "options demo_source = demo_options" "extent demo_source = demo_extent"
  "\<not> activated idle_source" "vector_source idle_source = demo_tree"
  "options idle_source = demo_options" "extent idle_source = demo_extent"
  "activate idle_source = demo_source"
  by (simp_all add: demo_source_def idle_source_def init_source_def activate_def)

lemma demo_raster:
  "geojson_to_raster bbox_lib demo_tree demo_options demo_window demo_extent =
     Inr \<lparr>dtype = float64, shape = (2, 3), items = [[0, 5, 0], [0, 2, 0]]\<rparr>"
  by code_simp

lemma demo_expand:
  "expand_dims_2 \<lparr>dtype = float64, shape = (2, 3), items = [[0, 5, 0], [0, 2, 0]]\<rparr> =
     \<lparr>dtype3 = float64, shape3 = (2, 3, 1), items3 = [[[0], [5], [0]], [[0], [2], [0]]]\<rparr>"
  by (simp add: expand_dims_2_def)

lemma valid_bounds_inside:
  assumes "ymin w \<le> ymax w" "xmin w \<le> xmax w"
    "ymin e \<le> real_of_int (ymin w)" "xmin e \<le> real_of_int (xmin w)"
    "real_of_int (ymax w) \<le> ymax e" "real_of_int (xmax w) \<le> xmax e"
  shows "valid_bounds w e = real_box w"
proof -
  have a: "min (real_of_int (ymin w)) (real_of_int (ymax w)) = real_of_int (ymin w)"
          "min (real_of_int (xmin w)) (real_of_int (xmax w)) = real_of_int (xmin w)"
          "max (real_of_int (ymin w)) (real_of_int (ymax w)) = real_of_int (ymax w)"
          "max (real_of_int (xmin w)) (real_of_int (xmax w)) = real_of_int (xmax w)"
    using assms(1,2) by simp_all
  have b: "min (ymin e) (ymax e) \<le> real_of_int (ymin w)" "min (xmin e) (xmax e) \<le> real_of_int (xmin w)"
    using assms(3,4) by (simp_all add: min_le_iff_disj)
  have c: "real_of_int (ymax w) \<le> max (ymin e) (ymax e)" "real_of_int (xmax w) \<le> max (xmin e) (xmax e)"
    using assms(5,6) by (simp_all add: le_max_iff_disj)
  show ?thesis
    unfolding valid_bounds_def overlap_def
    by (simp add: real_box_def a max_absorb1[OF b(1)] max_absorb1[OF b(2)]
        min_absorb1[OF c(1)] min_absorb1[OF c(2)])
qed

lemma valid_box_inside:
  assumes "ymin w \<le> ymax w" "xmin w \<le> xmax w"
    "ymin e \<le> real_of_int (ymin w)" "xmin e \<le> real_of_int (xmin w)"
    "real_of_int (ymax w) \<le> ymax e" "real_of_int (xmax w) \<le> xmax e"
    and ok: "float_sub_ok lib w"
  shows "\<not> is_empty (valid_window w e)"
    and "valid_box lib w e = Some \<lparr>ymin = 0, xmin = 0, ymax = get_height w, xmax = get_width w\<rparr>"
proof -
  have vb: "valid_bounds w e = real_box w" by (rule valid_bounds_inside[OF assms(1-6)])
  show ne: "\<not> is_empty (valid_window w e)"
    using assms(1,2) by (simp add: is_empty_valid_window vb real_box_def)
  have f: "float_sub lib (real_of_int (xmin w)) (real_of_int (xmin w)) = 0"
     "float_sub lib (real_of_int (ymin w)) (real_of_int (ymin w)) = 0"
     "float_sub lib (real_of_int (xmax w)) (real_of_int (xmin w)) = real_of_int (xmax w - xmin w)"
     "float_sub lib (real_of_int (ymax w)) (real_of_int (ymin w)) = real_of_int (ymax w - ymin w)"
    using ok unfolding float_sub_ok_def by blast+
  show "valid_box lib w e = Some \<lparr>ymin = 0, xmin = 0, ymax = get_height w, xmax = get_width w\<rparr>"
    by (simp add: valid_box_eq[OF ne ok] vb real_box_def f get_height_def get_width_def)
qed

lemma off_source_facts:
  "activated off_source" "str_tree off_source = Tree off_tree"
  "ymin (extent off_source) \<le> real_of_int (ymin demo_window)"
  "xmin (extent off_source) \<le> real_of_int (xmin demo_window)"
  "real_of_int (ymax demo_window) \<le> ymax (extent off_source)"
  "real_of_int (xmax demo_window) \<le> xmax (extent off_source)"
  by (simp_all add: off_source_def init_source_def activate_def wide_extent_def demo_window_def)

lemma off_tree_cropped: "crop_shapes bbox_lib off_tree demo_window = []"
  by code_simp

lemma coords_force_2d: "coords (force_2d g) = map drop_z (coords g)"
  by (induction g) (simp_all add: map_concat comp_def cong: map_cong)

lemma is_empty_force_2d: "is_empty (force_2d g) = is_empty g"
  by (simp add: is_empty_def coords_force_2d)

lemma type_is_LineString_force_2d: "type_is_LineString (force_2d g) = type_is_LineString g"
  by (cases g) simp_all

lemma force_2d_idem: "force_2d (force_2d g) = force_2d g"
  by (induction g) (simp_all add: drop_z_def comp_def split_def cong: map_cong)

lemma apply_func_drop_z:
  "apply_func (to_window_frame lib w) (drop_z c) = apply_func (to_window_frame lib w) c"
  by (simp add: apply_func_def drop_z_def to_window_frame_def split_def)

lemma transform_force_2d:
  "transform (to_window_frame lib w) (force_2d g) = transform (to_window_frame lib w) g"
  by (induction g) (simp_all add: apply_func_drop_z comp_def cong: map_cong)

lemma coords_2d_after_transform:
  "\<forall>c \<in> set (coords (transform (to_window_frame lib w) g)). snd (snd c) = None"
  by (auto simp: coords_transform apply_func_def to_window_frame_def split_def)

lemma bounds_force_2d: "bounds (force_2d g) = bounds g"
  by (simp add: bounds_def coords_force_2d drop_z_def comp_def split_def split: list.splits)

lemma map_force_2d_shape_eq_stage:
  assumes "map force_2d_shape xs = map force_2d_shape ys"
    and "\<And>x. force_2d_shape (f x) = g (force_2d_shape x)"
  shows "map force_2d_shape (map f xs) = map force_2d_shape (map f ys)"
proof -
  have "map force_2d_shape (map f zs) = map g (map force_2d_shape zs)" for zs
    by (induction zs) (simp_all add: assms(2))
  then show ?thesis using assms(1) by (simp only:)
qed

lemma crop_shapes_2d:
  assumes "z_oblivious lib" "map force_2d_shape t1 = map force_2d_shape t2"
  shows "map force_2d_shape (crop_shapes lib t1 w) = map force_2d_shape (crop_shapes lib t2 w)"
proof -
  define W where "W = to_shapely (real_box w)"
  define isect where "isect = (\<lambda>(s, c :: int). (intersection lib s W, c))"
  define ne where "ne = (\<lambda>(s, c :: int). \<not> is_empty s)"
  have "map force_2d_shape (query lib t1 W) = map force_2d_shape (query lib (map force_2d_shape t1) W)"
    using assms(1) unfolding z_oblivious_def by blast
  moreover have "map force_2d_shape (query lib t2 W) = map force_2d_shape (query lib (map force_2d_shape t2) W)"
    using assms(1) unfolding z_oblivious_def by blast
  ultimately have q: "map force_2d_shape (query lib t1 W) = map force_2d_shape (query lib t2 W)"
    using assms(2) by simp
  have "force_2d_shape (isect x) = (\<lambda>(s, c). (force_2d (intersection lib s W), c)) (force_2d_shape x)" for x
  proof -
    have "force_2d (intersection lib (fst x) W) = force_2d (intersection lib (force_2d (fst x)) W)"
      using assms(1) unfolding z_oblivious_def by blast
    then show ?thesis by (simp add: force_2d_shape_def isect_def split_def)
  qed
  then have i: "map force_2d_shape (map isect (query lib t1 W)) = map force_2d_shape (map isect (query lib t2 W))"
    by (rule map_force_2d_shape_eq_stage[OF q])
  have ne: "ne x = ne (force_2d_shape x)" for x
    by (simp add: ne_def force_2d_shape_def is_empty_force_2d split_def)
  have "map force_2d_shape (filter ne zs) = filter ne (map force_2d_shape zs)" for zs
    by (induction zs) (use ne in auto)
  then have "map force_2d_shape (filter ne (map isect (query lib t1 W)))
           = map force_2d_shape (filter ne (map isect (query lib t2 W)))"
    using i by simp
  then show ?thesis
    by (simp add: crop_shapes_def W_def isect_def ne_def Let_def)
qed

lemma window_shapes_2d:
  assumes "z_oblivious lib" "map force_2d_shape t1 = map force_2d_shape t2"
  shows "window_shapes lib t1 lb w = window_shapes lib t2 lb w"
proof -
  define T where "T = (\<lambda>(s, c :: int). (transform (to_window_frame lib w) s, c))"
  have c: "map force_2d_shape (crop_shapes lib t1 w) = map force_2d_shape (crop_shapes lib t2 w)"
    by (rule crop_shapes_2d[OF assms])
  have "force_2d_shape (buffer_line lib lb x) =
          (\<lambda>(s, c). if type_is_LineString s then (force_2d (buffer lib s lb), c) else (s, c))
            (force_2d_shape x)" for x
  proof -
    have "force_2d (buffer lib (fst x) lb) = force_2d (buffer lib (force_2d (fst x)) lb)"
      using assms(1) unfolding z_oblivious_def by blast
    then show ?thesis
      by (simp add: force_2d_shape_def buffer_line_def split_def type_is_LineString_force_2d)
  qed
  then have b: "map force_2d_shape (map (buffer_line lib lb) (crop_shapes lib t1 w))
              = map force_2d_shape (map (buffer_line lib lb) (crop_shapes lib t2 w))"
    by (rule map_force_2d_shape_eq_stage[OF c])
  have "T x = T (force_2d_shape x)" for x
    by (simp add: T_def force_2d_shape_def split_def transform_force_2d)
  then have "map T zs = map T (map force_2d_shape zs)" for zs
    by (induction zs) simp_all
  then have "map T (map (buffer_line lib lb) (crop_shapes lib t1 w))
           = map T (map (buffer_line lib lb) (crop_shapes lib t2 w))"
    using b by metis
  then show ?thesis by (simp add: window_shapes_def T_def)
qed

lemma bounds_within_force_2d: "bounds_within (force_2d g) h = bounds_within g h"
  by (simp add: bounds_within_def bounds_force_2d)

lemma bbox_lib_z_oblivious: "z_oblivious bbox_lib"
proof -
  have idem: "force_2d_shape (force_2d_shape x) = force_2d_shape x" for x
    by (simp add: force_2d_shape_def split_def force_2d_idem)
  show ?thesis
    unfolding z_oblivious_def
    by (simp add: bbox_lib_def idem comp_def bbox_intersection_def bounds_within_force_2d
        force_2d_idem bbox_buffer_def bounds_force_2d)
qed

lemma tree_3d_2d: "map force_2d_shape tree_3d = map force_2d_shape demo_tree"
  by (simp add: tree_3d_def demo_tree_def force_2d_shape_def to_shapely_def drop_z_def)

lemma tree_3d_raster:
  "geojson_to_raster bbox_lib tree_3d demo_options demo_window demo_extent =
     Inr \<lparr>dtype = float64, shape = (2, 3), items = [[0, 5, 0], [0, 2, 0]]\<rparr>"
  by code_simp




section \<open>Claims\<close>

text \<open>
  C1: for every window, the grid returned by the window rasterizer, and so the chip
  returned by \<open>get_chip\<close>, has element type unsigned 8-bit integer in every branch,
  the branch of the extent mask included. The source declares this type (\<open>get_dtype\<close>),
  but where the window meets the extent the grid is rebuilt by \<^verbatim>\<open>np.zeros(out_shape)\<close>,
  which is a float64 array: for the example window inside its extent the rasterizer and
  \<open>get_chip\<close> return float64 arrays.
\<close>

theorem chip_dtype_float64_inside_extent:
  "get_dtype demo_source = uint8 \<and>
   geojson_to_raster bbox_lib demo_tree demo_options demo_window demo_extent =
     Inr \<lparr>dtype = float64, shape = (2, 3), items = [[0, 5, 0], [0, 2, 0]]\<rparr> \<and>
   fst (get_chip bbox_lib demo_source demo_window) =
     Inr \<lparr>dtype3 = float64, shape3 = (2, 3, 1), items3 = [[[0], [5], [0]], [[0], [2], [0]]]\<rparr>"
  by code_simp




text \<open>
  C3: for every window that lies entirely outside the extent (to its left, right, above
  or below), the intersection of window and extent is empty and the grid returned by
  the window rasterizer is the burned grid with every pixel replaced by 0, whatever the
  index holds and whatever the background class is; when the call of \<open>rasterize\<close> honours
  its contract it is the grid of height times width zeros.
\<close>

theorem outside_extent_all_zero:
  assumes "ymin w \<le> ymax w" "xmin w \<le> xmax w" "ymin e \<le> ymax e" "xmin e \<le> xmax e"
    and "real_of_int (xmax w) < xmin e \<or> xmax e < real_of_int (xmin w) \<or>
         real_of_int (ymax w) < ymin e \<or> ymax e < real_of_int (ymin w)"
  shows "is_empty (valid_window w e) \<and>
         (\<exists>raster. burn_in lib t opts w = Inr raster \<and>
            geojson_to_raster lib t opts w e =
              Inr (raster\<lparr>items := map (map (\<lambda>v. 0)) (items raster)\<rparr>) \<and>
            (rasterize_ok lib t opts w \<longrightarrow>
               geojson_to_raster lib t opts w e =
                 Inr (raster\<lparr>shape := (nat (get_height w), nat (get_width w)),
                       items := replicate (nat (get_height w)) (replicate (nat (get_width w)) 0)\<rparr>)))"
proof -
  have emp: "is_empty (valid_window w e)"
    using assms(5) by (simp add: is_empty_valid_window_wf[OF assms(1-4)])
  obtain raster where b: "burn_in lib t opts w = Inr raster"
    using burn_in_Inr[OF assms(1,2)] by blast
  have g: "geojson_to_raster lib t opts w e =
             Inr (raster\<lparr>items := map (map (\<lambda>v. 0)) (items raster)\<rparr>)"
    using b emp by (simp add: geojson_to_raster_def extent_mask_empty fill_all_zero)
  have "geojson_to_raster lib t opts w e =
                 Inr (raster\<lparr>shape := (nat (get_height w), nat (get_width w)),
                       items := replicate (nat (get_height w)) (replicate (nat (get_width w)) 0)\<rparr>)"
    if ok: "rasterize_ok lib t opts w"
  proof -
    obtain raster' where "burn_in lib t opts w = Inr raster'"
      "shape raster' = (nat (get_height w), nat (get_width w))" "wf_grid raster'"
      using burn_in_shape[OF assms(1,2) ok] by blast
    then have sh: "shape raster = (nat (get_height w), nat (get_width w))" and wf: "wf_grid raster"
      using b by simp_all
    have "map (map (\<lambda>v. 0::int)) (items raster)
            = replicate (nat (get_height w)) (replicate (nat (get_width w)) 0)"
      using wf sh by (intro map_const_grid) (simp_all add: wf_grid_def list_all_iff)
    then show ?thesis using g sh by simp
  qed
  then show ?thesis using emp b g by blast
qed

theorem outside_extent_all_zero_witness:
  "ymin demo_window \<le> ymax demo_window \<and> xmin demo_window \<le> xmax demo_window \<and>
   ymin far_extent \<le> ymax far_extent \<and> xmin far_extent \<le> xmax far_extent \<and>
   (real_of_int (xmax demo_window) < xmin far_extent \<or> xmax far_extent < real_of_int (xmin demo_window) \<or>
    real_of_int (ymax demo_window) < ymin far_extent \<or> ymax far_extent < real_of_int (ymin demo_window)) \<and>
   rasterize_ok bbox_lib demo_tree demo_options demo_window \<and>
   is_empty (valid_window demo_window far_extent) \<and>
   burn_in bbox_lib demo_tree demo_options demo_window =
     Inr \<lparr>dtype = uint8, shape = (2, 3), items = [[5, 5, 2], [2, 2, 2]]\<rparr> \<and>
   geojson_to_raster bbox_lib demo_tree demo_options demo_window far_extent =
     Inr \<lparr>dtype = uint8, shape = (2, 3), items = [[0, 0, 0], [0, 0, 0]]\<rparr>"
proof -
  have hw: "nat (get_height demo_window) = 2" "nat (get_width demo_window) = 3"
    by (simp_all add: get_height_def get_width_def demo_window_def)
  have rep: "replicate 2 (replicate 3 (0::int)) = [[0, 0, 0], [0, 0, 0]]"
    by (simp add: numeral_2_eq_2 numeral_3_eq_3)
  show ?thesis
    using outside_extent_all_zero[OF demo_window_wf far_extent_wf far_outside,
        of bbox_lib demo_tree demo_options]
      demo_window_wf far_extent_wf far_outside bbox_rasterize_ok[of demo_tree demo_options demo_window]
    by (auto simp: demo_burn_in hw rep)
qed

text \<open>
  C4: \<open>get_chip\<close> raises an ActivationError exactly when the source is not activated, and
  the call leaves the source as it was. On an activated source that holds its index the
  result is the grid of the window rasterizer for the stored index, options and extent,
  with the channel axis added; it is a grid of the window's height and width when the
  window has non-negative height and width and the call of \<open>rasterize\<close> honours its
  contract. After a raising call the caller can activate the source, and the same call
  then returns the grid rasterized over the supplied geometries.
\<close>

theorem get_chip_activation_error:
  "((\<exists>m. fst (get_chip lib s w) = Inl (ActivationError m)) \<longleftrightarrow> \<not> activated s) \<and>
   snd (get_chip lib s w) = s \<and>
   (\<not> activated s \<longrightarrow>
      fst (get_chip lib s w) = Inl (ActivationError ''GeoJSONSource must be activated before use'')) \<and>
   (activated s \<and> str_tree s = Tree t \<longrightarrow>
      fst (get_chip lib s w) =
        (case geojson_to_raster lib t (options s) w (extent s) of
           Inl e \<Rightarrow> Inl e | Inr grid \<Rightarrow> Inr (expand_dims_2 grid))) \<and>
   (activated s \<and> str_tree s = Tree t \<and> ymin w \<le> ymax w \<and> xmin w \<le> xmax w \<and>
      rasterize_ok lib t (options s) w \<longrightarrow>
      (\<exists>grid. geojson_to_raster lib t (options s) w (extent s) = Inr grid \<and>
              shape grid = (nat (get_height w), nat (get_width w)) \<and> wf_grid grid \<and>
              fst (get_chip lib s w) = Inr (expand_dims_2 grid))) \<and>
   (\<not> activated s \<and> ymin w \<le> ymax w \<and> xmin w \<le> xmax w \<and>
      rasterize_ok lib (vector_source s) (options s) w \<longrightarrow>
      (\<exists>grid. geojson_to_raster lib (vector_source s) (options s) w (extent s) = Inr grid \<and>
              shape grid = (nat (get_height w), nat (get_width w)) \<and> wf_grid grid \<and>
              fst (get_chip lib (activate (snd (get_chip lib s w))) w) = Inr (expand_dims_2 grid)))"
proof (intro conjI impI)
  show "(\<exists>m. fst (get_chip lib s w) = Inl (ActivationError m)) \<longleftrightarrow> \<not> activated s"
    using geojson_to_raster_no_activation_error
    by (auto simp: get_chip_def split: index_attr.splits sum.splits)
  show "snd (get_chip lib s w) = s" by (rule get_chip_state)
  show "fst (get_chip lib s w) = Inl (ActivationError ''GeoJSONSource must be activated before use'')"
    if "\<not> activated s"
    using that by (simp add: get_chip_def)
  show "fst (get_chip lib s w) =
        (case geojson_to_raster lib t (options s) w (extent s) of
           Inl e \<Rightarrow> Inl e | Inr grid \<Rightarrow> Inr (expand_dims_2 grid))"
    if "activated s \<and> str_tree s = Tree t"
    using that by (simp add: get_chip_def get_extent_def split: sum.splits)
  show "\<exists>grid. geojson_to_raster lib t (options s) w (extent s) = Inr grid \<and>
              shape grid = (nat (get_height w), nat (get_width w)) \<and> wf_grid grid \<and>
              fst (get_chip lib s w) = Inr (expand_dims_2 grid)"
    if "activated s \<and> str_tree s = Tree t \<and> ymin w \<le> ymax w \<and> xmin w \<le> xmax w \<and>
      rasterize_ok lib t (options s) w"
    using get_chip_Inr[of s t w lib] that by blast
  show "\<exists>grid. geojson_to_raster lib (vector_source s) (options s) w (extent s) = Inr grid \<and>
              shape grid = (nat (get_height w), nat (get_width w)) \<and> wf_grid grid \<and>
              fst (get_chip lib (activate (snd (get_chip lib s w))) w) = Inr (expand_dims_2 grid)"
    if h: "\<not> activated s \<and> ymin w \<le> ymax w \<and> xmin w \<le> xmax w \<and>
      rasterize_ok lib (vector_source s) (options s) w"
  proof -
    have "activated (activate s)" "str_tree (activate s) = Tree (vector_source s)"
      "options (activate s) = options s" "extent (activate s) = extent s"
      by (simp_all add: activate_def)
    then show ?thesis
      using get_chip_Inr[of "activate s" "vector_source s" w lib] h
      by (auto simp: get_chip_state)
  qed
qed

theorem get_chip_activation_error_witness:
  "\<not> activated idle_source \<and>
   get_chip bbox_lib idle_source demo_window =
     (Inl (ActivationError ''GeoJSONSource must be activated before use''), idle_source) \<and>
   ymin demo_window \<le> ymax demo_window \<and> xmin demo_window \<le> xmax demo_window \<and>
   rasterize_ok bbox_lib (vector_source idle_source) (options idle_source) demo_window \<and>
   fst (get_chip bbox_lib (activate (snd (get_chip bbox_lib idle_source demo_window))) demo_window) =
     Inr \<lparr>dtype3 = float64, shape3 = (2, 3, 1), items3 = [[[0], [5], [0]], [[0], [2], [0]]]\<rparr> \<and>
   activated demo_source \<and> str_tree demo_source = Tree demo_tree \<and>
   rasterize_ok bbox_lib demo_tree (options demo_source) demo_window \<and>
   get_chip bbox_lib demo_source demo_window =
     (Inr \<lparr>dtype3 = float64, shape3 = (2, 3, 1), items3 = [[[0], [5], [0]], [[0], [2], [0]]]\<rparr>,
      demo_source)"
proof -
  have 1: "fst (get_chip bbox_lib idle_source demo_window) =
             Inl (ActivationError ''GeoJSONSource must be activated before use'')"
    and 2: "snd (get_chip bbox_lib idle_source demo_window) = idle_source"
    using get_chip_activation_error[of bbox_lib idle_source demo_window demo_tree]
      demo_source_facts(5) by blast+
  have 3: "fst (get_chip bbox_lib demo_source demo_window) =
        (case geojson_to_raster bbox_lib demo_tree (options demo_source) demo_window (extent demo_source) of
           Inl e \<Rightarrow> Inl e | Inr grid \<Rightarrow> Inr (expand_dims_2 grid))"
    and 4: "snd (get_chip bbox_lib demo_source demo_window) = demo_source"
    using get_chip_activation_error[of bbox_lib demo_source demo_window demo_tree]
      demo_source_facts(1,2) by blast+
  have 5: "fst (get_chip bbox_lib demo_source demo_window) =
     Inr \<lparr>dtype3 = float64, shape3 = (2, 3, 1), items3 = [[[0], [5], [0]], [[0], [2], [0]]]\<rparr>"
    using 3 by (simp add: demo_source_facts demo_raster demo_expand)
  show ?thesis
    using 1 2 4 5 demo_source_facts demo_window_wf bbox_rasterize_ok
    by (simp add: prod_eq_iff)
qed

text \<open>
  C5: for every window that meets the extent, the rectangle \<open>vw\<close> is the intersection of
  window and extent, moved to the window's frame by the subtraction of doubles and
  truncated to integers by floor on all four edges; every pixel of the returned grid
  outside \<open>vw\<close> is 0 and every pixel inside \<open>vw\<close> is the pixel of the burned grid. Window
  and extent are boxes (minimum at most maximum), the call of \<open>rasterize\<close> honours its
  contract and the subtraction of doubles has the properties of \<open>float_sub_ok\<close>.
\<close>

theorem extent_mask_pixels:
  assumes "ymin w \<le> ymax w" "xmin w \<le> xmax w" "ymin e \<le> ymax e" "xmin e \<le> xmax e"
    and "xmin e \<le> real_of_int (xmax w)" "real_of_int (xmin w) \<le> xmax e"
        "ymin e \<le> real_of_int (ymax w)" "real_of_int (ymin w) \<le> ymax e"
    and "rasterize_ok lib t opts w" "float_sub_ok lib w"
    and "vw = \<lparr>ymin = \<lfloor>float_sub lib (max (real_of_int (ymin w)) (ymin e)) (real_of_int (ymin w))\<rfloor>,
               xmin = \<lfloor>float_sub lib (max (real_of_int (xmin w)) (xmin e)) (real_of_int (xmin w))\<rfloor>,
               ymax = \<lfloor>float_sub lib (min (real_of_int (ymax w)) (ymax e)) (real_of_int (ymin w))\<rfloor>,
               xmax = \<lfloor>float_sub lib (min (real_of_int (xmax w)) (xmax e)) (real_of_int (xmin w))\<rfloor>\<rparr>"
  shows "\<not> is_empty (valid_window w e) \<and> valid_box lib w e = Some vw \<and>
         (\<exists>raster r.
            burn_in lib t opts w = Inr raster \<and> geojson_to_raster lib t opts w e = Inr r \<and>
            dtype r = float64 \<and> shape r = (nat (get_height w), nat (get_width w)) \<and> wf_grid r \<and>
            (\<forall>i < nat (get_height w). \<forall>j < nat (get_width w).
               items r ! i ! j =
                 (if ymin vw \<le> int i \<and> int i < ymax vw \<and> xmin vw \<le> int j \<and> int j < xmax vw
                  then items raster ! i ! j else 0)))"
proof -
  have ne: "\<not> is_empty (valid_window w e)"
    using assms(5-8) by (simp add: is_empty_valid_window_wf[OF assms(1-4)] not_less)
  have vb: "valid_box lib w e = Some vw"
    by (simp add: valid_box_eq[OF ne assms(10)] valid_bounds_wf[OF assms(1-4)] assms(11))
  obtain raster where b: "burn_in lib t opts w = Inr raster"
    and sh: "shape raster = (nat (get_height w), nat (get_width w))" and wf: "wf_grid raster"
    using burn_in_shape[OF assms(1,2,9)] by blast
  obtain r where m: "extent_mask lib raster w e = Inr r" and dt: "dtype r = float64"
    and shr: "shape r = (nat (get_height w), nat (get_width w))" and wfr: "wf_grid r"
    using extent_mask_shape[OF assms(1,2) ne sh] by blast
  have g: "geojson_to_raster lib t opts w e = Inr r"
    using b m by (simp add: geojson_to_raster_def)
  have px: "\<forall>i < nat (get_height w). \<forall>j < nat (get_width w).
               items r ! i ! j =
                 (if ymin vw \<le> int i \<and> int i < ymax vw \<and> xmin vw \<le> int j \<and> int j < xmax vw
                  then items raster ! i ! j else 0)"
    using extent_mask_pixels_aux[OF assms(1,2) ne assms(10) sh wf vb m] by blast
  show ?thesis using ne vb b g dt shr wfr px by blast
qed

theorem extent_mask_pixels_witness:
  "ymin demo_window \<le> ymax demo_window \<and> xmin demo_window \<le> xmax demo_window \<and>
   ymin round_extent \<le> ymax round_extent \<and> xmin round_extent \<le> xmax round_extent \<and>
   xmin round_extent \<le> real_of_int (xmax demo_window) \<and>
   real_of_int (xmin demo_window) \<le> xmax round_extent \<and>
   ymin round_extent \<le> real_of_int (ymax demo_window) \<and>
   real_of_int (ymin demo_window) \<le> ymax round_extent \<and>
   rasterize_ok quarter_lib demo_tree demo_options demo_window \<and>
   float_sub_ok quarter_lib demo_window \<and>
   valid_box quarter_lib demo_window round_extent = Some \<lparr>ymin = 0, xmin = 1, ymax = 2, xmax = 3\<rparr> \<and>
   burn_in quarter_lib demo_tree demo_options demo_window =
     Inr \<lparr>dtype = uint8, shape = (2, 3), items = [[5, 5, 2], [2, 2, 2]]\<rparr> \<and>
   geojson_to_raster quarter_lib demo_tree demo_options demo_window round_extent =
     Inr \<lparr>dtype = float64, shape = (2, 3), items = [[0, 5, 2], [0, 2, 2]]\<rparr>"
  using extent_mask_pixels[OF demo_window_wf round_extent_facts quarter_rasterize_ok
      quarter_float_sub_ok round_rect, of demo_tree demo_options]
    demo_window_wf round_extent_facts quarter_rasterize_ok[of demo_tree demo_options demo_window]
    quarter_float_sub_ok[of demo_window] round_burn_in round_raster
  by blast

text \<open>
  C6, as amended: for every window inside the extent for which no candidate is left
  after clipping, \<open>get_chip\<close> on an activated source returns the grid in which every
  pixel is the background class reduced modulo 256, which is the background class
  itself when it is at most 255.
\<close>

theorem background_when_no_shapes:
  assumes "activated s" "str_tree s = Tree t"
    and "ymin w \<le> ymax w" "xmin w \<le> xmax w"
    and "ymin (extent s) \<le> real_of_int (ymin w)" "xmin (extent s) \<le> real_of_int (xmin w)"
      "real_of_int (ymax w) \<le> ymax (extent s)" "real_of_int (xmax w) \<le> xmax (extent s)"
    and "crop_shapes lib t w = []"
    and "float_sub_ok lib w"
  shows "fst (get_chip lib s w) =
           Inr \<lparr>dtype3 = float64, shape3 = (nat (get_height w), nat (get_width w), 1),
                items3 = replicate (nat (get_height w))
                           (replicate (nat (get_width w)) [background_class_id (options s) mod 256])\<rparr>"
proof -
  define bg where "bg = background_class_id (options s) mod 256"
  define raster where "raster = \<lparr>dtype = uint8, shape = (nat (get_height w), nat (get_width w)),
       items = replicate (nat (get_height w)) (replicate (nat (get_width w)) bg)\<rparr>"
  have hw: "0 \<le> get_height w" "0 \<le> get_width w"
    using assms(3,4) by (simp_all add: get_height_def get_width_def)
  have b: "burn_in lib t (options s) w = Inr raster"
    using assms(9) hw
    by (simp add: burn_in_def window_shapes_def np_full_Inr out_shape_def raster_def bg_def cast_def)
  have sh: "shape raster = (nat (get_height w), nat (get_width w))" by (simp add: raster_def)
  have wf: "wf_grid raster" unfolding raster_def by (rule wf_grid_replicate)
  have ne: "\<not> is_empty (valid_window w (extent s))"
    and vb: "valid_box lib w (extent s) = Some \<lparr>ymin = 0, xmin = 0, ymax = get_height w, xmax = get_width w\<rparr>"
    by (rule valid_box_inside[OF assms(3-8,10)])+
  obtain r where m: "extent_mask lib raster w (extent s) = Inr r" and dt: "dtype r = float64"
    and shr: "shape r = (nat (get_height w), nat (get_width w))" and wfr: "wf_grid r"
    using extent_mask_shape[OF assms(3,4) ne sh] by blast
  have pixel: "items r ! i ! j = bg" if ij: "i < nat (get_height w)" "j < nat (get_width w)" for i j
  proof -
    have "items r ! i ! j =
            (if 0 \<le> int i \<and> int i < get_height w \<and> 0 \<le> int j \<and> int j < get_width w
             then items raster ! i ! j else 0)"
      using extent_mask_pixels_aux[OF assms(3,4) ne assms(10) sh wf vb m ij] by simp
    moreover have "int i < get_height w" "int j < get_width w"
      using ij[unfolded zless_nat_eq_int_zless] by simp_all
    moreover have "items raster ! i ! j = bg" using ij by (simp add: raster_def)
    ultimately show ?thesis by simp
  qed
  have its: "items r = replicate (nat (get_height w)) (replicate (nat (get_width w)) bg)"
    using pixel by (intro const_grid[OF wfr shr]) blast
  have r: "r = \<lparr>dtype = float64, shape = (nat (get_height w), nat (get_width w)),
                 items = replicate (nat (get_height w)) (replicate (nat (get_width w)) bg)\<rparr>"
    using dt shr its by (cases r) simp
  have g: "geojson_to_raster lib t (options s) w (extent s) = Inr r"
    using b m by (simp add: geojson_to_raster_def)
  have "fst (get_chip lib s w) = Inr (expand_dims_2 r)"
    using assms(1,2) g by (simp add: get_chip_def get_extent_def)
  then show ?thesis
    unfolding bg_def[symmetric] by (simp add: r expand_dims_2_def)
qed

theorem background_when_no_shapes_witness:
  "activated off_source \<and> str_tree off_source = Tree off_tree \<and>
   ymin demo_window \<le> ymax demo_window \<and> xmin demo_window \<le> xmax demo_window \<and>
   ymin (extent off_source) \<le> real_of_int (ymin demo_window) \<and>
   xmin (extent off_source) \<le> real_of_int (xmin demo_window) \<and>
   real_of_int (ymax demo_window) \<le> ymax (extent off_source) \<and>
   real_of_int (xmax demo_window) \<le> xmax (extent off_source) \<and>
   off_tree \<noteq> [] \<and> crop_shapes bbox_lib off_tree demo_window = [] \<and>
   float_sub_ok bbox_lib demo_window \<and>
   fst (get_chip bbox_lib off_source demo_window) =
     Inr \<lparr>dtype3 = float64, shape3 = (2, 3, 1), items3 = [[[2], [2], [2]], [[2], [2], [2]]]\<rparr>"
proof -
  have hw: "nat (get_height demo_window) = 2" "nat (get_width demo_window) = 3"
    by (simp_all add: get_height_def get_width_def demo_window_def)
  have bg: "background_class_id (options off_source) mod 256 = 2"
    by (simp add: off_source_def init_source_def activate_def demo_options_def)
  have rep: "replicate 2 (replicate 3 [2::int]) = [[[2], [2], [2]], [[2], [2], [2]]]"
    by (simp add: numeral_2_eq_2 numeral_3_eq_3)
  have ne: "off_tree \<noteq> []" by (simp add: off_tree_def)
  show ?thesis
    using background_when_no_shapes[OF off_source_facts(1,2) demo_window_wf off_source_facts(3-6)
        off_tree_cropped bbox_float_sub_ok]
      off_source_facts demo_window_wf off_tree_cropped bbox_float_sub_ok[of demo_window] ne
    by (simp add: hw bg rep)
qed

text \<open>
  The claim as stated fails for a background class above 255: with the class 300 every
  pixel of the chip is 44.
\<close>

theorem background_300_counterexample:
  "background_class_id (options source_300) = 300 \<and>
   crop_shapes bbox_lib off_tree demo_window = [] \<and>
   fst (get_chip bbox_lib source_300 demo_window) =
     Inr \<lparr>dtype3 = float64, shape3 = (2, 3, 1),
          items3 = [[[44], [44], [44]], [[44], [44], [44]]]\<rparr>"
  by code_simp





text \<open>
  C9: in every state reached from a new source by a sequence of activate, deactivate and
  \<open>get_chip\<close> calls, the activation flag is true exactly when the source holds a built
  index; after activate the flag is true and the index is built over the supplied
  geometries, after deactivate the flag is false and the index is dropped; and \<open>get_chip\<close>
  never reads a missing index.
\<close>

theorem activated_iff_index:
  assumes "s = run lib (init_source vs opts ext) calls"
  shows "(activated s \<longleftrightarrow> has_index s) \<and>
         activated (activate s) \<and> str_tree (activate s) = Tree vs \<and>
         \<not> activated (deactivate s) \<and> str_tree (deactivate s) = PyNone \<and>
         (\<forall>w. fst (get_chip lib s w) \<noteq> Inl AttributeError)"
proof -
  have inv: "activated s \<longleftrightarrow> has_index s" and vs: "vector_source s = vs"
    using run_invariant[of lib vs opts ext calls] assms by simp_all
  show ?thesis
    using inv vs get_chip_no_attribute_error[OF inv]
    by (simp add: activate_def deactivate_def)
qed

theorem activated_iff_index_witness:
  "(activated (run bbox_lib idle_source [Activate, GetChip demo_window, Deactivate]) \<longleftrightarrow>
      has_index (run bbox_lib idle_source [Activate, GetChip demo_window, Deactivate])) \<and>
   str_tree (activate (run bbox_lib idle_source [Activate, GetChip demo_window, Deactivate]))
     = Tree demo_tree \<and>
   (\<forall>w. fst (get_chip bbox_lib (run bbox_lib idle_source [Activate, GetChip demo_window, Deactivate]) w)
      \<noteq> Inl AttributeError)"
  using activated_iff_index[of "run bbox_lib idle_source [Activate, GetChip demo_window, Deactivate]"
      bbox_lib demo_tree demo_options demo_extent "[Activate, GetChip demo_window, Deactivate]"]
  by (simp add: idle_source_def)

text \<open>
  C10: \<open>to_window_frame\<close> returns the two differences whatever its third argument is, no
  shape handed to \<open>rasterize\<close> has a third coordinate, and two indexes whose geometries
  differ only in third coordinates give the same shapes and the same grid for every
  window, for a library that works on footprints.
\<close>

theorem z_coordinate_ignored:
  assumes "z_oblivious lib" "map force_2d_shape t1 = map force_2d_shape t2"
  shows "to_window_frame lib w x y z =
           (float_sub lib x (real_of_int (xmin w)), float_sub lib y (real_of_int (ymin w))) \<and>
         (\<forall>gc \<in> set (window_shapes lib t1 lb w). \<forall>c \<in> set (coords (fst gc)). snd (snd c) = None) \<and>
         window_shapes lib t1 lb w = window_shapes lib t2 lb w \<and>
         geojson_to_raster lib t1 opts w e = geojson_to_raster lib t2 opts w e"
proof -
  have ws: "window_shapes lib t1 lb w = window_shapes lib t2 lb w" for lb
    by (rule window_shapes_2d[OF assms])
  have flat: "\<forall>gc \<in> set (window_shapes lib t1 lb w). \<forall>c \<in> set (coords (fst gc)). snd (snd c) = None"
    using coords_2d_after_transform[of lib w]
    by (fastforce simp: window_shapes_def split_def)
  have "geojson_to_raster lib t1 opts w e = geojson_to_raster lib t2 opts w e"
    using ws by (simp add: geojson_to_raster_def burn_in_def)
  then show ?thesis using ws flat by (simp add: to_window_frame_def)
qed

theorem z_coordinate_ignored_witness:
  "z_oblivious bbox_lib \<and> map force_2d_shape tree_3d = map force_2d_shape demo_tree \<and>
   tree_3d \<noteq> demo_tree \<and>
   geojson_to_raster bbox_lib tree_3d demo_options demo_window demo_extent
     = geojson_to_raster bbox_lib demo_tree demo_options demo_window demo_extent \<and>
   geojson_to_raster bbox_lib tree_3d demo_options demo_window demo_extent
     = Inr \<lparr>dtype = float64, shape = (2, 3), items = [[0, 5, 0], [0, 2, 0]]\<rparr>"
proof -
  have ne: "tree_3d \<noteq> demo_tree"
    by (simp add: tree_3d_def demo_tree_def to_shapely_def)
  show ?thesis
    using z_coordinate_ignored[OF bbox_lib_z_oblivious tree_3d_2d] bbox_lib_z_oblivious tree_3d_2d
      ne tree_3d_raster
    by blast
qed


end
